theory Spec2Isabelle
  imports Main
begin

section \<open>JavaScript primitives used by the deploy pipeline\<close>

text \<open>
  A JavaScript string is a sequence of UTF-16 code units. The model uses \<open>string\<close>, whose
  characters are the code units 0..255 (ASCII and Latin-1); on that range the functions
  below compute what the built-ins of the language compute.
\<close>

definition toLowerChar :: "char \<Rightarrow> char" where
  "toLowerChar c =
     (let n = (of_char c :: nat)
      in if (65 \<le> n \<and> n \<le> 90) \<or> (192 \<le> n \<and> n \<le> 222 \<and> n \<noteq> 215)
         then char_of (n + 32) else c)"

text \<open>\<open>String.prototype.toLowerCase\<close>.\<close>

definition toLowerCase :: "string \<Rightarrow> string" where
  "toLowerCase s = map toLowerChar s"


text \<open>
  WhiteSpace and LineTerminator of the language below code unit 256: TAB, LF, VT, FF, CR,
  SP and NBSP. \<open>String.prototype.trim\<close> and the numeric conversion of a string strip
  exactly these.
\<close>

definition isWhiteSpace :: "char \<Rightarrow> bool" where
  "isWhiteSpace c =
     (let n = (of_char c :: nat) in (9 \<le> n \<and> n \<le> 13) \<or> n = 32 \<or> n = 160)"

definition trim :: "string \<Rightarrow> string" where
  "trim s = rev (dropWhile isWhiteSpace (rev (dropWhile isWhiteSpace s)))"

text \<open>\<open>s.replace(/ /, '')\<close>: the pattern is not global, so only the first space goes.\<close>

fun replaceFirstSpace :: "string \<Rightarrow> string" where
  "replaceFirstSpace [] = []"
| "replaceFirstSpace (c # cs) = (if c = CHR '' '' then cs else c # replaceFirstSpace cs)"

definition isDigit :: "char \<Rightarrow> bool" where
  "isDigit c = (let n = (of_char c :: nat) in 48 \<le> n \<and> n \<le> 57)"

definition isHexDigit :: "char \<Rightarrow> bool" where
  "isHexDigit c =
     (let n = (of_char c :: nat)
      in (48 \<le> n \<and> n \<le> 57) \<or> (65 \<le> n \<and> n \<le> 70) \<or> (97 \<le> n \<and> n \<le> 102))"

definition isOctDigit :: "char \<Rightarrow> bool" where
  "isOctDigit c = (let n = (of_char c :: nat) in 48 \<le> n \<and> n \<le> 55)"

definition isBinDigit :: "char \<Rightarrow> bool" where
  "isBinDigit c = (c = CHR ''0'' \<or> c = CHR ''1'')"

text \<open>DecimalDigits: one digit or more, and nothing else.\<close>

definition allDigits :: "string \<Rightarrow> bool" where
  "allDigits s = (s \<noteq> [] \<and> list_all isDigit s)"

text \<open>ExponentPart, or nothing: \<open>e\<close> or \<open>E\<close>, an optional sign, DecimalDigits.\<close>

fun optExponent :: "string \<Rightarrow> bool" where
  "optExponent [] = True"
| "optExponent (c # cs) =
     ((c = CHR ''e'' \<or> c = CHR ''E'') \<and>
      (case cs of
         [] \<Rightarrow> False
       | d # ds \<Rightarrow> if d = CHR ''+'' \<or> d = CHR ''-'' then allDigits ds else allDigits cs))"

text \<open>
  StrUnsignedDecimalLiteral: \<open>Infinity\<close>, or digits with an optional fraction and
  exponent, or a fraction that starts with the point.
\<close>

definition strUnsignedDecimal :: "string \<Rightarrow> bool" where
  "strUnsignedDecimal s =
     (s = ''Infinity'' \<or>
      (let ip = takeWhile isDigit s; r = dropWhile isDigit s
       in case r of
            [] \<Rightarrow> ip \<noteq> []
          | c # cs \<Rightarrow>
              if c = CHR ''.''
              then (let fp = takeWhile isDigit cs; r2 = dropWhile isDigit cs
                    in (ip \<noteq> [] \<or> fp \<noteq> []) \<and> optExponent r2)
              else ip \<noteq> [] \<and> optExponent r))"

definition strDecimal :: "string \<Rightarrow> bool" where
  "strDecimal s =
     (case s of
        [] \<Rightarrow> False
      | c # cs \<Rightarrow> if c = CHR ''+'' \<or> c = CHR ''-'' then strUnsignedDecimal cs
                  else strUnsignedDecimal s)"

text \<open>NonDecimalIntegerLiteral: \<open>0x\<close>, \<open>0o\<close> or \<open>0b\<close> and digits of that base, unsigned.\<close>

definition strNonDecimal :: "string \<Rightarrow> bool" where
  "strNonDecimal s =
     (case s of
        z # p # ds \<Rightarrow>
          z = CHR ''0'' \<and> ds \<noteq> [] \<and>
          (if p = CHR ''x'' \<or> p = CHR ''X'' then list_all isHexDigit ds
           else if p = CHR ''o'' \<or> p = CHR ''O'' then list_all isOctDigit ds
           else if p = CHR ''b'' \<or> p = CHR ''B'' then list_all isBinDigit ds
           else False)
      | _ \<Rightarrow> False)"

text \<open>
  The global \<open>isNaN\<close> applied to a string: the string converts to NaN exactly when it is
  not a StringNumericLiteral, that is, when after trimming it is neither empty nor a
  numeric literal.
\<close>

definition isNaN :: "string \<Rightarrow> bool" where
  "isNaN s = (let t = trim s in \<not> (t = [] \<or> strDecimal t \<or> strNonDecimal t))"


section \<open>Values, configuration and the outside world\<close>

text \<open>
  Values of the language as the pipeline meets them: parsed JSON, \<open>undefined\<close>, and the
  error objects that a \<open>catch\<close> clause binds (kept by name). Numbers are the integers;
  an object is its list of properties, the first binding of a name being the one read.
\<close>

datatype jsval =
    JUndefined
  | JNull
  | JBool bool
  | JNum int
  | JStr string
  | JArr "jsval list"
  | JObj "(string \<times> jsval) list"
  | JError string

text \<open>Conversion to boolean, as \<open>if (v)\<close> and \<open>!v\<close> perform it.\<close>

fun truthy :: "jsval \<Rightarrow> bool" where
  "truthy JUndefined = False"
| "truthy JNull = False"
| "truthy (JBool b) = b"
| "truthy (JNum n) = (n \<noteq> 0)"
| "truthy (JStr s) = (s \<noteq> [])"
| "truthy (JArr xs) = True"
| "truthy (JObj kvs) = True"
| "truthy (JError e) = True"

text \<open>
  Property access \<open>v.p\<close>: on \<open>undefined\<close> and \<open>null\<close> it throws a TypeError (\<open>None\<close>); a
  property that is not there reads as \<open>undefined\<close>. The names the pipeline reads (\<open>data\<close>,
  \<open>account\<close>, \<open>nonce\<close>, \<open>sendZkapp\<close>, \<open>zkapp\<close>, \<open>kind\<close>, \<open>hash\<close>, \<open>errors\<close>,
  \<open>privateKey\<close>) are properties of no primitive, array or error object.
\<close>

fun getProp :: "jsval \<Rightarrow> string \<Rightarrow> jsval option" where
  "getProp JUndefined p = None"
| "getProp JNull p = None"
| "getProp (JObj kvs) p = Some (case map_of kvs p of None \<Rightarrow> JUndefined | Some x \<Rightarrow> x)"
| "getProp v p = Some JUndefined"

text \<open>Optional chaining \<open>v?.p\<close>: \<open>undefined\<close> where \<open>v.p\<close> would throw.\<close>

definition optProp :: "jsval \<Rightarrow> string \<Rightarrow> jsval" where
  "optProp v p = (case getProp v p of None \<Rightarrow> JUndefined | Some x \<Rightarrow> x)"

text \<open>
  One alias of \<open>config.json\<close>, as \<open>zk config\<close> writes it (\<open>url\<close>, \<open>keyPath\<close>, \<open>fee\<close>) and as
  deploy extends it (\<open>smartContract\<close>). A property that is absent is \<open>None\<close>. The
  configuration is its \<open>networks\<close> object, a map from the aliases, which are its own
  properties, to their entries.
\<close>

record network_entry =
  url :: "string option"
  keyPath :: "string option"
  feeSetting :: "string option"
  smartContract :: "string option"

record config =
  networks :: "string \<rightharpoonup> network_entry"

text \<open>
  \<open>config.json\<close> as \<open>fs.readJSONSync\<close> finds it: not there, not readable, readable with
  a \<open>networks\<close> object, or readable without one (the layout that keeps the aliases under
  \<open>deployAliases\<close>). The \<open>networks\<close> object is taken as \<open>zk config\<close> writes it: an object
  whose properties are objects.
\<close>

datatype config_file = FileMissing | FileUnreadable | FileJson config | FileWithoutNetworks

text \<open>
  \<open>config.networks[network]\<close>: the entry stored under the name, or, for a name that is
  not stored, what the object inherits under it from \<open>Object.prototype\<close> (a function, or
  for \<open>__proto__\<close> the prototype itself: truthy, and without a \<open>url\<close>), or \<open>undefined\<close>.
\<close>

datatype lookup = Absent | Inherited | Own network_entry

definition inheritedNames :: "string list" where
  "inheritedNames =
     [''constructor'', ''__proto__'', ''hasOwnProperty'', ''isPrototypeOf'',
      ''propertyIsEnumerable'', ''toLocaleString'', ''toString'', ''valueOf'',
      ''__defineGetter__'', ''__defineSetter__'', ''__lookupGetter__'', ''__lookupSetter__'']"

definition lookupNetwork :: "config \<Rightarrow> string \<Rightarrow> lookup" where
  "lookupNetwork config network =
     (case networks config network of
        Some entry \<Rightarrow> Own entry
      | None \<Rightarrow> if network \<in> set inheritedNames then Inherited else Absent)"

text \<open>\<open>build/build.json\<close>.\<close>

record build =
  smartContracts :: "string list"

text \<open>A string property that may be absent, tested by \<open>if (s)\<close>.\<close>

definition truthyStr :: "string option \<Rightarrow> bool" where
  "truthyStr s = (case s of None \<Rightarrow> False | Some x \<Rightarrow> x \<noteq> [])"

text \<open>\<open>config.networks[network]?.smartContract\<close>.\<close>

definition configuredContract :: "config \<Rightarrow> string \<Rightarrow> string option" where
  "configuredContract config network =
     (case networks config network of None \<Rightarrow> None | Some e \<Rightarrow> smartContract e)"

text \<open>The GraphQL documents built by \<open>getAccountQuery\<close> and \<open>sendZkAppQuery\<close>, by their argument.\<close>

datatype query = AccountQuery string | ZkappMutation string

text \<open>
  What \<open>fetch\<close> and \<open>response.json()\<close> meet: the HTTP response with its status line and
  its body (\<open>None\<close> when the body is not JSON), or a rejection by the transport.
  \<open>response.ok\<close> is a status from 200 to 299.
\<close>

record http_response =
  status :: int
  statusText :: string
  body :: "jsval option"

definition ok :: "http_response \<Rightarrow> bool" where
  "ok r = (200 \<le> status r \<and> status r \<le> 299)"

datatype fetch_outcome = Responds http_response | Rejects string

text \<open>
  The remote end settles a request some milliseconds after it is issued, or never does.
\<close>

datatype net_behaviour = Settles nat fetch_outcome | Pending

text \<open>The object literal \<open>feePayerDeploy\<close> handed to the signer.\<close>

record fee_payer_deploy =
  feePayer :: string
  nonce :: jsval
  fee :: string
  memo :: string

text \<open>
  The messages deploy prints with \<open>log\<close>, one constructor for each call, in the order of
  the source:
  \<^item> \<open>config.json not found. Make sure you're in a zkApp project.\<close>
  \<^item> \<open>Unable to read config.json.\<close>
  \<^item> \<open>Network name not found in config.json.\<close>
  \<^item> \<open>You can add a network by running `zk config`.\<close>
  \<^item> \<open>No 'url' property is specified for this network in config.json.\<close>
  \<^item> \<open>Please correct your config.json and try again.\<close>
  \<^item> \<open>The '...' smart contract will be used for this network as specified in config.json.\<close>
  \<^item> \<open>Only one smart contract exists in the project: ...\<close>
  \<^item> \<open>Your config.json was updated to always use this smart contract when deploying to
    this network.\<close>
  \<^item> \<open>Failed to find the "..." smart contract in your build directory.\<close>, with the hint to
    check the name in config.json;
  \<^item> the same, with the hint to use a named export;
  \<^item> \<open>Failed to find the the zkapp private key. Please make sure your config.json has the
    correct 'keyPath' property.\<close>
  \<^item> \<open>Aborted. Transaction not sent.\<close>
  \<^item> \<open>Failed to send transaction to relayer. Please try again.\<close>
  \<^item> \<open>Success! Deploy transaction sent.\<close>, with the address of the transaction made from
    its hash.
\<close>

datatype message =
    ConfigNotFoundMsg
  | ConfigUnreadableMsg
  | NetworkNotFoundMsg
  | AddNetworkHintMsg
  | NoUrlMsg
  | CorrectConfigMsg
  | ConfiguredContractMsg string
  | OnlyContractMsg string
  | ConfigUpdatedMsg
  | ImportFailedMsg string
  | ExportMissingMsg string
  | KeyNotFoundMsg
  | AbortedMsg
  | SendFailedMsg
  | SuccessMsg jsval

text \<open>What an invocation does to the outside world, in order.\<close>

datatype event =
    Log message
  | StepDone string
  | StepFailed string
  | EmptyBuildDir
  | WriteBuildJson "string list"
  | WriteConfig config
  | AskSelect "string list"
  | AskInput string
  | InvalidInput string
  | ReadJSON string
  | NetRequest string query
  | Sign fee_payer_deploy string jsval

text \<open>How an invocation ends.\<close>

datatype outcome =
    ConfigNotFound
  | ConfigUnreadable
  | NetworkNotFound
  | UrlMissing
  | StepExit string
  | PromptCancelled
  | ImportFailed
  | ExportMissing
  | KeyFileUnreadable
  | Uncaught
  | NoFee
  | Aborted
  | NotConfirmed
  | SendFailed
  | Success jsval

record result =
  outcome :: outcome
  trace :: "event list"

definition finish :: "event list \<Rightarrow> outcome \<Rightarrow> result" where
  "finish es out = \<lparr>outcome = out, trace = es\<rparr>"

definition emit :: "event list \<Rightarrow> result \<Rightarrow> result" where
  "emit es r = r\<lparr>trace := es @ trace r\<rparr>"

text \<open>
  What building the transaction comes to: \<open>PrivateKey.fromBase58\<close> throws, or the step
  \<open>Generate verification key\<close> does, or the step \<open>Build transaction\<close> does, or the
  parties are built.
\<close>

datatype build_result = KeyRejected | CompileThrows | DeployThrows | Built string

text \<open>
  Everything an invocation reads from outside: the files, the operator's answers, the
  libraries (snarkyjs, mina-signer, the compiled project) and the network.
  \<^item> \<open>selectAnswer\<close>, \<open>confirmInput\<close>: the operator's answer, \<open>None\<close> when the prompt is
    cancelled;
  \<^item> \<open>feeInputs\<close>, \<open>nonceInputs\<close>: what the operator submits to the prompt, in order; the
    prompt is cancelled when they run out;
  \<^item> \<open>importsOf\<close>: the named exports of the module that declares the contract, \<open>None\<close>
    when the import fails;
  \<^item> \<open>readJSON\<close>: \<open>fs.readJSONSync\<close> on a path, \<open>None\<close> when it throws;
  \<^item> \<open>signTransaction\<close>: the signed parties, a JSON text, \<open>None\<close> when the signer
    throws.
\<close>

record env =
  projectDir :: string
  configFile :: config_file
  buildSucceeds :: bool
  discovered :: "string list"
  selectAnswer :: "string option"
  importsOf :: "string \<Rightarrow> string list option"
  readJSON :: "string \<Rightarrow> jsval option"
  buildTransaction :: "string \<Rightarrow> jsval \<Rightarrow> build_result"
  feeInputs :: "string list"
  derivePublicKey :: "jsval \<Rightarrow> string"
  fetch :: "string \<Rightarrow> query \<Rightarrow> net_behaviour"
  nonceInputs :: "string list"
  signTransaction :: "fee_payer_deploy \<Rightarrow> string \<Rightarrow> jsval \<Rightarrow> string option"
  confirmInput :: "string option"

section \<open>The deploy pipeline\<close>

text \<open>
  \<open>deploy\<close> is one long function; it is cut here into its stages, defined from the last
  one (the submission) to the first (reading the configuration), each stage ending the
  invocation or going on with the next. A stage returns how the invocation ends and
  what it did on the way.
\<close>

text \<open>
  \<open>chooseSmartContract(config, deploy, network)\<close>: the configured name when there is a
  truthy one, else the only name of the build, else the empty string.
\<close>

definition chooseSmartContract :: "config \<Rightarrow> build \<Rightarrow> string \<Rightarrow> string" where
  "chooseSmartContract config deploy network =
     (if truthyStr (configuredContract config network)
      then (case configuredContract config network of Some s \<Rightarrow> s | None \<Rightarrow> [])
      else (case smartContracts deploy of [x] \<Rightarrow> x | _ \<Rightarrow> []))"

definition DEFAULT_GRAPHQL :: string where
  "DEFAULT_GRAPHQL = ''https://proxy.berkeley.minaexplorer.com/graphql''"

text \<open>The delay of the timer that aborts a request, in milliseconds.\<close>

definition timeoutMs :: nat where
  "timeoutMs = 20000"

text \<open>The two object literals \<open>sendGraphQL\<close> returns for a failure.\<close>

definition errorResult :: "jsval \<Rightarrow> jsval" where
  "errorResult err = JObj [(''kind'', JStr ''error''), (''message'', err)]"

definition httpErrorResult :: "http_response \<Rightarrow> jsval \<Rightarrow> jsval" where
  "httpErrorResult r errs =
     JObj [(''kind'', JStr ''error''), (''statusCode'', JNum (status r)),
           (''statusText'', JStr (statusText r)), (''message'', errs)]"

text \<open>
  \<open>sendGraphQL(graphQLEndpoint, query)\<close>. The timer aborts the request when it has not
  settled before \<open>timeoutMs\<close> have passed (timers run before the callbacks of the
  network, so a request that settles at the bound is aborted); \<open>fetch\<close> then rejects with an AbortError, which the
  \<open>catch\<close> clause turns into an error object, as it does every other exception of the
  \<open>try\<close> block: a rejection of \<open>fetch\<close>, a body that is not JSON, and the TypeError of
  reading \<open>errors\<close> from a body that is \<open>null\<close>. The body is parsed before the status is
  looked at.
\<close>

definition sendGraphQL :: "(string \<Rightarrow> query \<Rightarrow> net_behaviour) \<Rightarrow> string \<Rightarrow> query \<Rightarrow> jsval" where
  "sendGraphQL world graphQLEndpoint q =
     (case world graphQLEndpoint q of
        Pending \<Rightarrow> errorResult (JError ''AbortError'')
      | Settles t out \<Rightarrow>
          if timeoutMs \<le> t then errorResult (JError ''AbortError'')
          else (case out of
                  Rejects err \<Rightarrow> errorResult (JError err)
                | Responds response \<Rightarrow>
                    (case body response of
                       None \<Rightarrow> errorResult (JError ''SyntaxError'')
                     | Some responseJson \<Rightarrow>
                         if \<not> ok response
                         then (case getProp responseJson ''errors'' of
                                 None \<Rightarrow> errorResult (JError ''TypeError'')
                               | Some errs \<Rightarrow> httpErrorResult response errs)
                         else responseJson)))"

subsection \<open>Input prompts\<close>

datatype validation = Valid | Invalid string

definition validateFee :: "string \<Rightarrow> validation" where
  "validateFee val =
     (if val = [] then Invalid ''Fee is required.''
      else if isNaN val then Invalid ''Fee must be a number.''
      else Valid)"

definition validateNonce :: "string \<Rightarrow> validation" where
  "validateNonce val =
     (if val = [] then Invalid ''Nonce is required.''
      else if isNaN val then Invalid ''Nonce must be a number.''
      else Valid)"

text \<open>The \<open>result\<close> callback of both prompts: \<open>val.trim().replace(/ /, '')\<close>.\<close>

definition inputResult :: "string \<Rightarrow> string" where
  "inputResult val = replaceFirstSpace (trim val)"

datatype 'a answer = Cancelled | Answered 'a

text \<open>
  What a prompt answers once the \<open>result\<close> callback has run on the accepted input. The
  prompt takes as its value the first of the callback's result and the input as typed
  that is a non-empty string, so an input that the callback turns into the empty string
  is answered as it was typed.
\<close>

definition promptAnswer :: "(string \<Rightarrow> string) \<Rightarrow> string \<Rightarrow> string" where
  "promptAnswer res val = (if res val = [] then val else res val)"

text \<open>
  An input prompt with a \<open>validate\<close> and a \<open>result\<close> callback, run on what the operator
  submits: a submission that does not validate shows its message and leaves the prompt
  open, the first one that validates is passed through \<open>result\<close> and answered.
\<close>

fun inputPrompt ::
  "(string \<Rightarrow> validation) \<Rightarrow> (string \<Rightarrow> string) \<Rightarrow> string list \<Rightarrow> event list \<times> string answer"
where
  "inputPrompt validate res [] = ([], Cancelled)"
| "inputPrompt validate res (val # rest) =
     (case validate val of
        Valid \<Rightarrow> ([], Answered (promptAnswer res val))
      | Invalid msg \<Rightarrow>
          (case inputPrompt validate res rest of (es, a) \<Rightarrow> (InvalidInput msg # es, a)))"

subsection \<open>Submission\<close>

text \<open>
  The callback of the step \<open>Send to network\<close>, on what \<open>sendGraphQL\<close> returned:
  \<open>.data.sendZkapp.zkapp\<close>, or the TypeError that reading it throws, which the callback
  catches and returns.
\<close>

definition sendTxn :: "jsval \<Rightarrow> jsval" where
  "sendTxn r =
     (case getProp r ''data'' of
        None \<Rightarrow> JError ''TypeError''
      | Some d \<Rightarrow>
          (case getProp d ''sendZkapp'' of
             None \<Rightarrow> JError ''TypeError''
           | Some s \<Rightarrow>
               (case getProp s ''zkapp'' of
                  None \<Rightarrow> JError ''TypeError''
                | Some z \<Rightarrow> z)))"

definition deploySend :: "env \<Rightarrow> string \<Rightarrow> string \<Rightarrow> result" where
  "deploySend e graphQLEndpoint signedParties =
     (let zkAppMutation = ZkappMutation signedParties;
          txn = sendTxn (sendGraphQL (fetch e) graphQLEndpoint zkAppMutation)
      in emit [NetRequest graphQLEndpoint zkAppMutation, StepDone ''Send to network'']
           (if \<not> truthy txn \<or> optProp txn ''kind'' = JStr ''error''
            then finish [Log SendFailedMsg] SendFailed
            else finish [Log (SuccessMsg (optProp txn ''hash''))]
                   (Success (optProp txn ''hash''))))"

subsection \<open>Confirmation\<close>

text \<open>
  The \<open>result\<close> callback of the confirmation prompt; \<open>None\<close> is its \<open>process.exit()\<close>.
\<close>

definition confirmResult :: "string \<Rightarrow> string option" where
  "confirmResult val =
     (let v = toLowerCase val
      in if \<not> (v = ''yes'' \<or> v = ''y'') then None else Some v)"

text \<open>The fail-safe after the prompt, and the submission behind it.\<close>

definition afterConfirm :: "env \<Rightarrow> string \<Rightarrow> string \<Rightarrow> string \<Rightarrow> result" where
  "afterConfirm e confirm graphQLEndpoint signedParties =
     (if \<not> (confirm = ''yes'' \<or> confirm = ''y'') then finish [] NotConfirmed
      else deploySend e graphQLEndpoint signedParties)"

definition deployConfirm :: "env \<Rightarrow> bool \<Rightarrow> string \<Rightarrow> string \<Rightarrow> result" where
  "deployConfirm e yes graphQLEndpoint signedParties =
     (if yes then afterConfirm e ''yes'' graphQLEndpoint signedParties
      else (case confirmInput e of
              None \<Rightarrow> finish [AskInput ''confirm''] PromptCancelled
            | Some val \<Rightarrow>
                (case confirmResult val of
                   None \<Rightarrow> finish [AskInput ''confirm'', Log AbortedMsg] Aborted
                 | Some confirm \<Rightarrow>
                     emit [AskInput ''confirm'']
                       (afterConfirm e confirm graphQLEndpoint signedParties))))"

subsection \<open>Nonce and signature\<close>

definition deploySign ::
  "env \<Rightarrow> bool \<Rightarrow> string \<Rightarrow> jsval \<Rightarrow> string \<Rightarrow> string \<Rightarrow> string \<Rightarrow> jsval \<Rightarrow> result"
where
  "deploySign e yes graphQLEndpoint privateKey parties feeAnswer payer nonceValue =
     (let feePayerDeploy =
            \<lparr>feePayer = payer, nonce = nonceValue,
             fee = feeAnswer @ ''000000000'', memo = []\<rparr>
      in case signTransaction e feePayerDeploy parties privateKey of
           None \<Rightarrow>
             finish [Sign feePayerDeploy parties privateKey, StepFailed ''Sign transaction'']
               (StepExit ''Sign transaction'')
         | Some signedParties \<Rightarrow>
             emit [Sign feePayerDeploy parties privateKey, StepDone ''Sign transaction'']
               (deployConfirm e yes graphQLEndpoint signedParties))"

text \<open>\<open>response?.data?.account?.nonce\<close>.\<close>

definition accountNonce :: "jsval \<Rightarrow> jsval" where
  "accountNonce response = optProp (optProp (optProp response ''data'') ''account'') ''nonce''"

text \<open>
  The nonce to sign with: the one of the response when it is truthy, else the answer to
  the nonce prompt.
\<close>

definition resolveNonce :: "env \<Rightarrow> jsval \<Rightarrow> event list \<times> jsval answer" where
  "resolveNonce e response =
     (if truthy (accountNonce response) then ([], Answered (accountNonce response))
      else (case inputPrompt validateNonce inputResult (nonceInputs e) of
              (es, Cancelled) \<Rightarrow> (AskInput ''nonce'' # es, Cancelled)
            | (es, Answered n) \<Rightarrow> (AskInput ''nonce'' # es, Answered (JStr n))))"

definition deployNonce ::
  "env \<Rightarrow> bool \<Rightarrow> string \<Rightarrow> jsval \<Rightarrow> string \<Rightarrow> string \<Rightarrow> result"
where
  "deployNonce e yes graphQLEndpoint privateKey parties feeAnswer =
     (let payer = derivePublicKey e privateKey;
          accountQuery = AccountQuery payer;
          response = sendGraphQL (fetch e) graphQLEndpoint accountQuery
      in emit [NetRequest graphQLEndpoint accountQuery]
           (case resolveNonce e response of
              (es, Cancelled) \<Rightarrow> finish es PromptCancelled
            | (es, Answered n) \<Rightarrow>
                emit es
                  (deploySign e yes graphQLEndpoint privateKey parties feeAnswer payer n)))"

subsection \<open>Fee, key and transaction\<close>

definition deployFee :: "env \<Rightarrow> bool \<Rightarrow> string \<Rightarrow> jsval \<Rightarrow> string \<Rightarrow> result" where
  "deployFee e yes graphQLEndpoint privateKey parties =
     (case inputPrompt validateFee inputResult (feeInputs e) of
        (es, Cancelled) \<Rightarrow> finish (AskInput ''fee'' # es) PromptCancelled
      | (es, Answered feeAnswer) \<Rightarrow>
          emit (AskInput ''fee'' # es)
            (if feeAnswer = [] then finish [] NoFee
             else deployNonce e yes graphQLEndpoint privateKey parties feeAnswer))"

text \<open>
  The key file is \<open>${DIR}/keys/${network}.json\<close>; reading it and taking its
  \<open>privateKey\<close> are inside one \<open>try\<close>, so \<open>None\<close> is any exception of the two.
\<close>

definition keyFilePath :: "env \<Rightarrow> string \<Rightarrow> string" where
  "keyFilePath e network = projectDir e @ ''/keys/'' @ network @ ''.json''"

definition readPrivateKey :: "env \<Rightarrow> string \<Rightarrow> jsval option" where
  "readPrivateKey e network =
     (case readJSON e (keyFilePath e network) of
        None \<Rightarrow> None
      | Some j \<Rightarrow> getProp j ''privateKey'')"

text \<open>Decoding the key, compiling and building the transaction are the libraries' work.\<close>

definition deployKey :: "env \<Rightarrow> bool \<Rightarrow> string \<Rightarrow> string \<Rightarrow> string \<Rightarrow> result" where
  "deployKey e yes network graphQLEndpoint contractName =
     emit [ReadJSON (keyFilePath e network)]
       (case readPrivateKey e network of
          None \<Rightarrow> finish [Log KeyNotFoundMsg] KeyFileUnreadable
        | Some privateKey \<Rightarrow>
            (case buildTransaction e contractName privateKey of
               KeyRejected \<Rightarrow> finish [] Uncaught
             | CompileThrows \<Rightarrow>
                 finish [StepFailed ''Generate verification key'']
                   (StepExit ''Generate verification key'')
             | DeployThrows \<Rightarrow>
                 finish [StepDone ''Generate verification key'', StepFailed ''Build transaction'']
                   (StepExit ''Build transaction'')
             | Built parties \<Rightarrow>
                 emit [StepDone ''Generate verification key'', StepDone ''Build transaction'']
                   (deployFee e yes graphQLEndpoint privateKey parties)))"

definition deployImport :: "env \<Rightarrow> bool \<Rightarrow> string \<Rightarrow> string \<Rightarrow> string \<Rightarrow> result" where
  "deployImport e yes network graphQLEndpoint contractName =
     (case importsOf e contractName of
        None \<Rightarrow> finish [Log (ImportFailedMsg contractName)] ImportFailed
      | Some exports \<Rightarrow>
          if contractName \<notin> set exports
          then finish [Log (ExportMissingMsg contractName)] ExportMissing
          else deployKey e yes network graphQLEndpoint contractName)"

subsection \<open>Contract resolution\<close>

text \<open>\<open>config?.networks[network]?.url ?? DEFAULT_GRAPHQL\<close>, for the alias that was found.\<close>

definition endpointOf :: "network_entry \<Rightarrow> string" where
  "endpointOf entry = (case url entry of None \<Rightarrow> DEFAULT_GRAPHQL | Some u \<Rightarrow> u)"

text \<open>The name is written to \<open>config.json\<close> when it differs from the stored one.\<close>

definition deployPersist ::
  "env \<Rightarrow> bool \<Rightarrow> string \<Rightarrow> config \<Rightarrow> network_entry \<Rightarrow> string \<Rightarrow> result"
where
  "deployPersist e yes network cfg entry contractName =
     (if smartContract entry \<noteq> Some contractName
      then emit
             [WriteConfig
                (cfg\<lparr>networks :=
                   (networks cfg)(network \<mapsto> entry\<lparr>smartContract := Some contractName\<rparr>)\<rparr>),
              Log ConfigUpdatedMsg]
             (deployImport e yes network (endpointOf entry) contractName)
      else deployImport e yes network (endpointOf entry) contractName)"

text \<open>
  Which contract to deploy: \<open>chooseSmartContract\<close>, and the select prompt over the names
  of the build when that returns a falsy name. In the branch that does not prompt, the
  name is the configured one or \<open>build.smartContracts[0]\<close>, the only name of the build.
\<close>

definition resolveContract :: "env \<Rightarrow> config \<Rightarrow> string \<Rightarrow> event list \<times> string answer" where
  "resolveContract e cfg network =
     (let bld = \<lparr>smartContracts = discovered e\<rparr>;
          contractName = chooseSmartContract cfg bld network
      in if contractName = []
         then (case selectAnswer e of
                 None \<Rightarrow> ([AskSelect (smartContracts bld)], Cancelled)
               | Some chosen \<Rightarrow> ([AskSelect (smartContracts bld)], Answered chosen))
         else ([StepDone ''Choose smart contract'',
                Log (if truthyStr (configuredContract cfg network)
                     then ConfiguredContractMsg contractName
                     else OnlyContractMsg contractName)],
               Answered contractName))"

definition deployContract ::
  "env \<Rightarrow> bool \<Rightarrow> string \<Rightarrow> config \<Rightarrow> network_entry \<Rightarrow> result"
where
  "deployContract e yes network cfg entry =
     (case resolveContract e cfg network of
        (es, Cancelled) \<Rightarrow> finish es PromptCancelled
      | (es, Answered contractName) \<Rightarrow>
          emit es (deployPersist e yes network cfg entry contractName))"

definition deployBuild ::
  "env \<Rightarrow> bool \<Rightarrow> string \<Rightarrow> config \<Rightarrow> network_entry \<Rightarrow> result"
where
  "deployBuild e yes network cfg entry =
     (if \<not> buildSucceeds e
      then finish [EmptyBuildDir, StepFailed ''Build project''] (StepExit ''Build project'')
      else emit
             [EmptyBuildDir, StepDone ''Build project'',
              WriteBuildJson (discovered e), StepDone ''Generate build.json'']
             (deployContract e yes network cfg entry))"

text \<open>
  \<open>deploy({ network, yes })\<close>. Without a \<open>networks\<close> object, \<open>config.networks[network]\<close>
  throws a TypeError that nothing catches, and nothing has been printed. An inherited
  property passes the test for the name and fails the test for the \<open>url\<close>.
\<close>

definition deploy :: "env \<Rightarrow> string \<Rightarrow> bool \<Rightarrow> result" where
  "deploy e network yes =
     (case configFile e of
        FileMissing \<Rightarrow> finish [Log ConfigNotFoundMsg] ConfigNotFound
      | FileUnreadable \<Rightarrow> finish [Log ConfigUnreadableMsg] ConfigUnreadable
      | FileWithoutNetworks \<Rightarrow> finish [] Uncaught
      | FileJson cfg \<Rightarrow>
          (let network = toLowerCase network
           in case lookupNetwork cfg network of
                Absent \<Rightarrow>
                  finish [Log NetworkNotFoundMsg, Log AddNetworkHintMsg] NetworkNotFound
              | Inherited \<Rightarrow> finish [Log NoUrlMsg, Log CorrectConfigMsg] UrlMissing
              | Own entry \<Rightarrow>
                  if \<not> truthyStr (url entry)
                  then finish [Log NoUrlMsg, Log CorrectConfigMsg] UrlMissing
                  else deployBuild e yes network cfg entry))"

section \<open>Reading a trace\<close>

text \<open>What was handed to the signer, in order.\<close>

fun signatures :: "event list \<Rightarrow> (fee_payer_deploy \<times> string \<times> jsval) list" where
  "signatures [] = []"
| "signatures (Sign fp parties key # es) = (fp, parties, key) # signatures es"
| "signatures (ev # es) = signatures es"

text \<open>The requests sent to the network, in order.\<close>

fun requests :: "event list \<Rightarrow> (string \<times> query) list" where
  "requests [] = []"
| "requests (NetRequest ep q # es) = (ep, q) # requests es"
| "requests (ev # es) = requests es"

text \<open>The submissions among them.\<close>

fun isSubmission :: "string \<times> query \<Rightarrow> bool" where
  "isSubmission (ep, ZkappMutation p) = True"
| "isSubmission (ep, AccountQuery pk) = False"

definition submissions :: "event list \<Rightarrow> (string \<times> query) list" where
  "submissions es = filter isSubmission (requests es)"

text \<open>The files read with \<open>fs.readJSONSync\<close> after the configuration, in order.\<close>

fun filesRead :: "event list \<Rightarrow> string list" where
  "filesRead [] = []"
| "filesRead (ReadJSON path # es) = path # filesRead es"
| "filesRead (ev # es) = filesRead es"

text \<open>The versions of \<open>config.json\<close> written, in order.\<close>

fun configWrites :: "event list \<Rightarrow> config list" where
  "configWrites [] = []"
| "configWrites (WriteConfig c # es) = c # configWrites es"
| "configWrites (ev # es) = configWrites es"

text \<open>The select prompts shown, by their choices.\<close>

fun selectPrompts :: "event list \<Rightarrow> string list list" where
  "selectPrompts [] = []"
| "selectPrompts (AskSelect cs # es) = cs # selectPrompts es"
| "selectPrompts (ev # es) = selectPrompts es"

text \<open>The input prompts shown, by name.\<close>

fun inputPrompts :: "event list \<Rightarrow> string list" where
  "inputPrompts [] = []"
| "inputPrompts (AskInput n # es) = n # inputPrompts es"
| "inputPrompts (ev # es) = inputPrompts es"

text \<open>The messages printed.\<close>

fun printed :: "event list \<Rightarrow> message list" where
  "printed [] = []"
| "printed (Log m # es) = m # printed es"
| "printed (ev # es) = printed es"

section \<open>A project to run the pipeline on\<close>

text \<open>
  The alias \<open>testnet\<close> with its endpoint, one contract \<open>Foo\<close> in the build, a key file, an
  account whose nonce the endpoint knows, and an endpoint that accepts the transaction.
\<close>

definition exampleEntry :: network_entry where
  "exampleEntry =
     \<lparr>url = Some ''https://example/graphql'', keyPath = Some ''keys/testnet.json'',
      feeSetting = Some ''0.05'', smartContract = None\<rparr>"

definition exampleConfig :: config where
  "exampleConfig = \<lparr>networks = [''testnet'' \<mapsto> exampleEntry]\<rparr>"

definition jsonReply :: "nat \<Rightarrow> int \<Rightarrow> jsval \<Rightarrow> net_behaviour" where
  "jsonReply t code j = Settles t (Responds \<lparr>status = code, statusText = ''-'', body = Some j\<rparr>)"

definition accountReply :: "jsval \<Rightarrow> net_behaviour" where
  "accountReply n =
     jsonReply 150 200
       (JObj [(''data'', JObj [(''account'', JObj [(''publicKey'', JStr ''B62q''), (''nonce'', n)])])])"

definition zkappReply :: "jsval \<Rightarrow> net_behaviour" where
  "zkappReply z = jsonReply 300 200 (JObj [(''data'', JObj [(''sendZkapp'', JObj [(''zkapp'', z)])])])"

definition exampleWorld :: "string \<Rightarrow> query \<Rightarrow> net_behaviour" where
  "exampleWorld ep q =
     (case q of
        AccountQuery pk \<Rightarrow> accountReply (JStr ''3'')
      | ZkappMutation p \<Rightarrow> zkappReply (JObj [(''id'', JStr ''1''), (''hash'', JStr ''0xabc'')]))"

definition exampleFiles :: "string \<Rightarrow> jsval option" where
  "exampleFiles path =
     (if path = ''/proj/keys/testnet.json''
      then Some (JObj [(''privateKey'', JStr ''EKtestnet''), (''publicKey'', JStr ''B62q'')])
      else if path = ''/proj/keys/other.json''
      then Some (JObj [(''privateKey'', JStr ''EKother''), (''publicKey'', JStr ''B62r'')])
      else None)"

text \<open>A stand-in for the derivation of the public key, which keeps the private key apart.\<close>

definition examplePublicKey :: "jsval \<Rightarrow> string" where
  "examplePublicKey key = (case key of JStr k \<Rightarrow> ''B62q'' @ k | _ \<Rightarrow> ''B62q'')"

definition exampleEnv :: env where
  "exampleEnv =
     \<lparr>projectDir = ''/proj'',
      configFile = FileJson exampleConfig,
      buildSucceeds = True,
      discovered = [''Foo''],
      selectAnswer = None,
      importsOf = (\<lambda>name. Some [''Foo'', ''deploy'']),
      readJSON = exampleFiles,
      buildTransaction = (\<lambda>name key. Built ''{}''),
      feeInputs = [''0.05''],
      derivePublicKey = examplePublicKey,
      fetch = exampleWorld,
      nonceInputs = [],
      signTransaction = (\<lambda>fp parties key. Some parties),
      confirmInput = Some ''yes''\<rparr>"

text \<open>The same alias once a contract, \<open>Bar\<close>, has been recorded for it.\<close>

definition barConfig :: config where
  "barConfig = \<lparr>networks = [''testnet'' \<mapsto> exampleEntry\<lparr>smartContract := Some ''Bar''\<rparr>]\<rparr>"

text \<open>A build with two contracts, and an operator who selects the second.\<close>

definition twoContractsEnv :: env where
  "twoContractsEnv = exampleEnv\<lparr>discovered := [''Foo'', ''Baz''], selectAnswer := Some ''Baz''\<rparr>"

text \<open>
  Networks that know the account and answer the submission with a given behaviour; and a
  network that never answers.
\<close>

definition submitWorld :: "net_behaviour \<Rightarrow> string \<Rightarrow> query \<Rightarrow> net_behaviour" where
  "submitWorld b ep q =
     (case q of
        AccountQuery pk \<Rightarrow> accountReply (JStr ''3'')
      | ZkappMutation p \<Rightarrow> b)"

definition silentWorld :: "string \<Rightarrow> query \<Rightarrow> net_behaviour" where
  "silentWorld ep q = Pending"

text \<open>A GraphQL answer that carries errors and no data, as servers send with status 200.\<close>

definition graphqlErrors :: jsval where
  "graphqlErrors =
     JObj [(''errors'', JArr [JObj [(''message'', JStr ''Invalid_nonce'')]]), (''data'', JNull)]"



text \<open>The example project when the operator types the fee with a space in front.\<close>

definition paddedFeeEnv :: env where
  "paddedFeeEnv = exampleEnv\<lparr>feeInputs := ['' 1'']\<rparr>"

text \<open>
  The example project when the endpoint never answers and the operator, asked for the
  nonce, types \<open>abc\<close>, then nothing, then 12.
\<close>

definition promptedNonceEnv :: env where
  "promptedNonceEnv = exampleEnv\<lparr>fetch := silentWorld, nonceInputs := [''abc'', [], ''12'']\<rparr>"

text \<open>
  The example project when the alias names another key file in its \<open>keyPath\<close>; and the
  same when the file named there is the only key file of the project.
\<close>

definition otherKeyConfig :: config where
  "otherKeyConfig = \<lparr>networks = [''testnet'' \<mapsto> exampleEntry\<lparr>keyPath := Some ''keys/other.json''\<rparr>]\<rparr>"

definition otherKeyEnv :: env where
  "otherKeyEnv = exampleEnv\<lparr>configFile := FileJson otherKeyConfig\<rparr>"

definition onlyOtherFile :: "string \<Rightarrow> jsval option" where
  "onlyOtherFile path =
     (if path = ''/proj/keys/other.json''
      then Some (JObj [(''privateKey'', JStr ''EKother''), (''publicKey'', JStr ''B62r'')])
      else None)"

definition onlyOtherKeyEnv :: env where
  "onlyOtherKeyEnv = otherKeyEnv\<lparr>readJSON := onlyOtherFile\<rparr>"





text \<open>The example configuration once \<open>Foo\<close> has been recorded for the alias.\<close>

definition fooConfig :: config where
  "fooConfig = \<lparr>networks = [''testnet'' \<mapsto> exampleEntry\<lparr>smartContract := Some ''Foo''\<rparr>]\<rparr>"


definition blankFeeEnv :: env where
  "blankFeeEnv = exampleEnv\<lparr>feeInputs := ['' '']\<rparr>"

text \<open>
  The example project when the endpoint answers the submission, with the record of the
  transaction, \<open>t\<close> milliseconds after the request.
\<close>

definition submitAfterEnv :: "nat \<Rightarrow> env" where
  "submitAfterEnv t =
     exampleEnv\<lparr>fetch := submitWorld (jsonReply t 200
       (JObj [(''data'', JObj [(''sendZkapp'', JObj [(''zkapp'',
          JObj [(''id'', JStr ''2''), (''hash'', JStr ''0xdef'')])])])]))\<rparr>"

section \<open>Basic facts\<close>

lemmas stage_defs =
  deploy_def deployBuild_def deployContract_def deployPersist_def deployImport_def
  deployKey_def readPrivateKey_def keyFilePath_def deployFee_def deployNonce_def
  resolveNonce_def deploySign_def resolveContract_def endpointOf_def
  deployConfirm_def afterConfirm_def deploySend_def

lemmas prim_defs =
  toLowerCase_def toLowerChar_def char_of_def isNaN_def trim_def isWhiteSpace_def
  strDecimal_def strUnsignedDecimal_def strNonDecimal_def isDigit_def allDigits_def
  validateFee_def validateNonce_def inputResult_def truthyStr_def configuredContract_def
  lookupNetwork_def inheritedNames_def promptAnswer_def chooseSmartContract_def
  sendGraphQL_def sendTxn_def accountNonce_def optProp_def
  confirmResult_def ok_def timeoutMs_def errorResult_def httpErrorResult_def
  submissions_def bit_Suc_0_iff

lemmas example_defs =
  exampleEnv_def exampleConfig_def exampleEntry_def exampleWorld_def accountReply_def
  zkappReply_def jsonReply_def exampleFiles_def examplePublicKey_def

subsection \<open>Lowercasing\<close>

lemma toLowerChar_idem: "toLowerChar (toLowerChar c) = toLowerChar c"
proof -
  have m: "of_char (char_of (of_char c + 32 :: nat)) = ((of_char c + 32) mod 256 :: nat)"
    by (simp only: of_char_of)
  show ?thesis
    unfolding toLowerChar_def Let_def by (simp add: m)
qed

lemma toLowerCase_idem: "toLowerCase (toLowerCase s) = toLowerCase s"
  by (simp add: toLowerCase_def toLowerChar_idem)


subsection \<open>Results and traces\<close>

lemma trace_emit [simp]: "trace (emit es r) = es @ trace r"
  by (simp add: emit_def)

lemma outcome_emit [simp]: "outcome (emit es r) = outcome r"
  by (simp add: emit_def)

lemma trace_finish [simp]: "trace (finish es out) = es"
  by (simp add: finish_def)

lemma outcome_finish [simp]: "outcome (finish es out) = out"
  by (simp add: finish_def)

lemma signatures_append [simp]: "signatures (xs @ ys) = signatures xs @ signatures ys"
  by (induction xs rule: signatures.induct) simp_all

lemma requests_append [simp]: "requests (xs @ ys) = requests xs @ requests ys"
  by (induction xs rule: requests.induct) simp_all

lemma submissions_append [simp]: "submissions (xs @ ys) = submissions xs @ submissions ys"
  by (simp add: submissions_def)

lemma filesRead_append [simp]: "filesRead (xs @ ys) = filesRead xs @ filesRead ys"
  by (induction xs rule: filesRead.induct) simp_all

lemma configWrites_append [simp]: "configWrites (xs @ ys) = configWrites xs @ configWrites ys"
  by (induction xs rule: configWrites.induct) simp_all

lemma selectPrompts_append [simp]:
  "selectPrompts (xs @ ys) = selectPrompts xs @ selectPrompts ys"
  by (induction xs rule: selectPrompts.induct) simp_all

lemma inputPrompts_append [simp]: "inputPrompts (xs @ ys) = inputPrompts xs @ inputPrompts ys"
  by (induction xs rule: inputPrompts.induct) simp_all

subsection \<open>The input prompt\<close>

text \<open>While it is open, the prompt only shows validation messages.\<close>

lemma inputPrompt_quiet:
  "inputPrompt validate res xs = (es, a) \<Longrightarrow>
     signatures es = [] \<and> requests es = [] \<and> filesRead es = [] \<and> configWrites es = [] \<and>
     selectPrompts es = [] \<and> inputPrompts es = []"
  by (induction xs arbitrary: es a) (auto split: validation.splits prod.splits)

text \<open>
  However many submissions are turned down, the first valid one is the answer, and each
  one turned down has shown one message.
\<close>

lemma inputPrompt_first_valid:
  "\<forall>b \<in> set bad. validate b \<noteq> Valid \<Longrightarrow> validate v = Valid \<Longrightarrow>
     snd (inputPrompt validate res (bad @ v # rest)) = Answered (promptAnswer res v) \<and>
     length (fst (inputPrompt validate res (bad @ v # rest))) = length bad"
  by (induction bad) (auto split: validation.splits prod.splits)

text \<open>An answer always comes from a valid submission, after invalid ones only.\<close>

lemma inputPrompt_answered:
  "inputPrompt validate res xs = (es, Answered a) \<Longrightarrow>
     \<exists>bad v rest. xs = bad @ v # rest \<and> (\<forall>b \<in> set bad. validate b \<noteq> Valid) \<and>
        validate v = Valid \<and> a = promptAnswer res v"
proof (induction xs arbitrary: es)
  case Nil
  then show ?case by simp
next
  case (Cons x xs)
  show ?case
  proof (cases "validate x")
    case Valid
    with Cons.prems have "a = promptAnswer res x" by simp
    with Valid show ?thesis by (intro exI[of _ "[]"] exI[of _ x] exI[of _ xs]) simp
  next
    case (Invalid msg)
    with Cons.prems obtain es' where "inputPrompt validate res xs = (es', Answered a)"
      by (auto split: prod.splits)
    from Cons.IH[OF this] obtain bad v rest where
      h: "xs = bad @ v # rest" "\<forall>b \<in> set bad. validate b \<noteq> Valid" "validate v = Valid"
         "a = promptAnswer res v"
      by blast
    with Invalid show ?thesis
      by (intro exI[of _ "x # bad"] exI[of _ v] exI[of _ rest]) simp
  qed
qed

subsection \<open>The entry point\<close>

lemma lookupNetwork_Own_iff: "lookupNetwork cfg n = Own entry \<longleftrightarrow> networks cfg n = Some entry"
  by (simp add: lookupNetwork_def split: option.splits)

lemma lookupNetwork_None:
  "networks cfg n = None \<Longrightarrow> lookupNetwork cfg n = Absent \<or> lookupNetwork cfg n = Inherited"
  by (simp add: lookupNetwork_def)

text \<open>Deploy goes on to the build exactly with a stored entry that has a url.\<close>

lemma deploy_goes_on:
  assumes "configFile e = FileJson cfg" "networks cfg (toLowerCase n) = Some entry"
    "truthyStr (url entry)"
  shows "deploy e n y = deployBuild e y (toLowerCase n) cfg entry"
  using assms by (simp add: deploy_def Let_def lookupNetwork_def)

lemma deploy_stops:
  assumes "configFile e = FileJson cfg"
    and "networks cfg (toLowerCase n) = None \<or>
         networks cfg (toLowerCase n) = Some entry \<and> \<not> truthyStr (url entry)"
  shows "deploy e n y = finish [Log NetworkNotFoundMsg, Log AddNetworkHintMsg] NetworkNotFound \<or>
         deploy e n y = finish [Log NoUrlMsg, Log CorrectConfigMsg] UrlMissing"
  using assms by (auto simp: deploy_def Let_def lookupNetwork_def)

section \<open>The stages, read through their traces\<close>

subsection \<open>From the submission back to the fee prompt\<close>

lemma deploySend_proj:
  "signatures (trace (deploySend e ep sp)) = []"
  "requests (trace (deploySend e ep sp)) = [(ep, ZkappMutation sp)]"
  "configWrites (trace (deploySend e ep sp)) = []"
  "selectPrompts (trace (deploySend e ep sp)) = []"
  "filesRead (trace (deploySend e ep sp)) = []"
  "inputPrompts (trace (deploySend e ep sp)) = []"
  by (simp_all add: deploySend_def Let_def)

lemma deployConfirm_quiet:
  "signatures (trace (deployConfirm e y ep sp)) = []"
  "configWrites (trace (deployConfirm e y ep sp)) = []"
  "selectPrompts (trace (deployConfirm e y ep sp)) = []"
  "filesRead (trace (deployConfirm e y ep sp)) = []"
  by (simp_all add: deployConfirm_def afterConfirm_def deploySend_proj split: option.splits)

text \<open>The gate lets one request through, or none.\<close>

lemma deployConfirm_requests:
  "requests (trace (deployConfirm e y ep sp)) = [(ep, ZkappMutation sp)] \<or>
   requests (trace (deployConfirm e y ep sp)) = []"
  by (simp add: deployConfirm_def afterConfirm_def deploySend_proj split: option.splits)

lemma deploySign_signatures:
  "signatures (trace (deploySign e y ep key parties f payer n)) =
     [(\<lparr>feePayer = payer, nonce = n, fee = f @ ''000000000'', memo = []\<rparr>, parties, key)]"
  by (simp add: deploySign_def Let_def deployConfirm_quiet split: option.splits)

lemma deploySign_quiet:
  "configWrites (trace (deploySign e y ep key parties f payer n)) = []"
  "selectPrompts (trace (deploySign e y ep key parties f payer n)) = []"
  "filesRead (trace (deploySign e y ep key parties f payer n)) = []"
  by (simp_all add: deploySign_def Let_def deployConfirm_quiet split: option.splits)

lemma deploySign_requests:
  "requests (trace (deploySign e y ep key parties f payer n)) = [] \<or>
   (\<exists>sp. requests (trace (deploySign e y ep key parties f payer n)) =
           requests (trace (deployConfirm e y ep sp)))"
  by (auto simp: deploySign_def Let_def split: option.splits)

lemma resolveNonce_quiet:
  "resolveNonce e r = (es, a) \<Longrightarrow>
     signatures es = [] \<and> requests es = [] \<and> filesRead es = [] \<and> configWrites es = [] \<and>
     selectPrompts es = []"
  by (auto simp: resolveNonce_def split: if_splits prod.splits answer.splits
      dest: inputPrompt_quiet)

lemma deployNonce_signatures:
  "signatures (trace (deployNonce e y ep key parties f)) =
     (case snd (resolveNonce e
                  (sendGraphQL (fetch e) ep (AccountQuery (derivePublicKey e key)))) of
        Cancelled \<Rightarrow> []
      | Answered n \<Rightarrow>
          [(\<lparr>feePayer = derivePublicKey e key, nonce = n, fee = f @ ''000000000'',
             memo = []\<rparr>, parties, key)])"
  by (auto simp: deployNonce_def Let_def deploySign_signatures
      split: prod.splits answer.splits dest: resolveNonce_quiet)

lemma deployNonce_quiet:
  "configWrites (trace (deployNonce e y ep key parties f)) = []"
  "selectPrompts (trace (deployNonce e y ep key parties f)) = []"
  "filesRead (trace (deployNonce e y ep key parties f)) = []"
  by (auto simp: deployNonce_def Let_def deploySign_quiet
      split: prod.splits answer.splits dest: resolveNonce_quiet)

lemma deployNonce_requests:
  "requests (trace (deployNonce e y ep key parties f)) =
     [(ep, AccountQuery (derivePublicKey e key))] \<or>
   (\<exists>payer n. requests (trace (deployNonce e y ep key parties f)) =
      (ep, AccountQuery (derivePublicKey e key)) #
      requests (trace (deploySign e y ep key parties f payer n)))"
proof (cases "resolveNonce e (sendGraphQL (fetch e) ep (AccountQuery (derivePublicKey e key)))")
  case (Pair es a)
  then have q: "requests es = []"
    by (auto dest: resolveNonce_quiet)
  show ?thesis
  proof (cases a)
    case Cancelled
    with Pair q show ?thesis by (simp add: deployNonce_def Let_def)
  next
    case (Answered n)
    with Pair q have
      "requests (trace (deployNonce e y ep key parties f)) =
         (ep, AccountQuery (derivePublicKey e key)) #
         requests (trace (deploySign e y ep key parties f (derivePublicKey e key) n))"
      by (simp add: deployNonce_def Let_def)
    then show ?thesis by blast
  qed
qed

lemma deployFee_signatures:
  "signatures (trace (deployFee e y ep key parties)) =
     (case snd (inputPrompt validateFee inputResult (feeInputs e)) of
        Cancelled \<Rightarrow> []
      | Answered f \<Rightarrow>
          if f = [] then [] else signatures (trace (deployNonce e y ep key parties f)))"
  by (auto simp: deployFee_def split: prod.splits answer.splits dest: inputPrompt_quiet)

lemma deployFee_quiet:
  "configWrites (trace (deployFee e y ep key parties)) = []"
  "selectPrompts (trace (deployFee e y ep key parties)) = []"
  "filesRead (trace (deployFee e y ep key parties)) = []"
  by (auto simp: deployFee_def deployNonce_quiet split: prod.splits answer.splits
      dest: inputPrompt_quiet)

lemma deployFee_requests:
  "requests (trace (deployFee e y ep key parties)) = [] \<or>
   (\<exists>f. requests (trace (deployFee e y ep key parties)) =
          requests (trace (deployNonce e y ep key parties f)))"
proof (cases "inputPrompt validateFee inputResult (feeInputs e)")
  case (Pair es a)
  then have q: "requests es = []"
    by (auto dest: inputPrompt_quiet)
  show ?thesis
  proof (cases a)
    case Cancelled
    with Pair q show ?thesis by (simp add: deployFee_def)
  next
    case (Answered f)
    with Pair q show ?thesis by (auto simp: deployFee_def)
  qed
qed

subsection \<open>From the entry point down to the fee prompt\<close>

lemma deployKey_quiet:
  "configWrites (trace (deployKey e y n ep c)) = []"
  "selectPrompts (trace (deployKey e y n ep c)) = []"
  "filesRead (trace (deployKey e y n ep c)) = [keyFilePath e n]"
  by (auto simp: deployKey_def deployFee_quiet split: option.splits build_result.splits)

lemma deployImport_quiet:
  "configWrites (trace (deployImport e y n ep c)) = []"
  "selectPrompts (trace (deployImport e y n ep c)) = []"
  by (auto simp: deployImport_def deployKey_quiet split: option.splits)

text \<open>
  Nothing is signed and nothing is requested before the fee prompt, and the fee prompt is
  reached only with the key of the key file and a transaction built from it.
\<close>

lemma deployKey_late:
  "(signatures (trace (deployKey e y n ep c)) = [] \<and> requests (trace (deployKey e y n ep c)) = []) \<or>
   (\<exists>key parties. readPrivateKey e n = Some key \<and> buildTransaction e c key = Built parties \<and>
      signatures (trace (deployKey e y n ep c)) = signatures (trace (deployFee e y ep key parties)) \<and>
      requests (trace (deployKey e y n ep c)) = requests (trace (deployFee e y ep key parties)))"
  by (simp add: deployKey_def split: option.splits build_result.splits)

lemma deployImport_late:
  "(signatures (trace (deployImport e y n ep c)) = [] \<and>
    requests (trace (deployImport e y n ep c)) = []) \<or>
   (\<exists>key parties. readPrivateKey e n = Some key \<and> buildTransaction e c key = Built parties \<and>
      signatures (trace (deployImport e y n ep c)) =
        signatures (trace (deployFee e y ep key parties)) \<and>
      requests (trace (deployImport e y n ep c)) =
        requests (trace (deployFee e y ep key parties)))"
  using deployKey_late [of e y n ep c]
  by (simp add: deployImport_def split: option.splits)

lemma deployPersist_late:
  "(signatures (trace (deployPersist e y n cfg entry c)) = [] \<and>
    requests (trace (deployPersist e y n cfg entry c)) = []) \<or>
   (\<exists>key parties. readPrivateKey e n = Some key \<and> buildTransaction e c key = Built parties \<and>
      signatures (trace (deployPersist e y n cfg entry c)) =
        signatures (trace (deployFee e y (endpointOf entry) key parties)) \<and>
      requests (trace (deployPersist e y n cfg entry c)) =
        requests (trace (deployFee e y (endpointOf entry) key parties)))"
  using deployImport_late [of e y n "endpointOf entry" c]
  by (simp add: deployPersist_def)

lemma deployContract_late:
  "(signatures (trace (deployContract e y n cfg entry)) = [] \<and>
    requests (trace (deployContract e y n cfg entry)) = []) \<or>
   (\<exists>c key parties. readPrivateKey e n = Some key \<and> buildTransaction e c key = Built parties \<and>
      signatures (trace (deployContract e y n cfg entry)) =
        signatures (trace (deployFee e y (endpointOf entry) key parties)) \<and>
      requests (trace (deployContract e y n cfg entry)) =
        requests (trace (deployFee e y (endpointOf entry) key parties)))"
proof (cases "resolveContract e cfg n")
  case (Pair es a)
  then have q: "signatures es = []" "requests es = []"
    by (auto simp: resolveContract_def Let_def split: if_splits option.splits)
  show ?thesis
  proof (cases a)
    case Cancelled
    with Pair q show ?thesis by (simp add: deployContract_def)
  next
    case (Answered c)
    with Pair q deployPersist_late [of e y n cfg entry c] show ?thesis
      by (auto simp: deployContract_def)
  qed
qed

lemma deployBuild_late:
  "(signatures (trace (deployBuild e y n cfg entry)) = [] \<and>
    requests (trace (deployBuild e y n cfg entry)) = []) \<or>
   (\<exists>c key parties. readPrivateKey e n = Some key \<and> buildTransaction e c key = Built parties \<and>
      signatures (trace (deployBuild e y n cfg entry)) =
        signatures (trace (deployFee e y (endpointOf entry) key parties)) \<and>
      requests (trace (deployBuild e y n cfg entry)) =
        requests (trace (deployFee e y (endpointOf entry) key parties)))"
  using deployContract_late [of e y n cfg entry]
  by (simp add: deployBuild_def)

lemma deploy_late:
  "(signatures (trace (deploy e n y)) = [] \<and> requests (trace (deploy e n y)) = []) \<or>
   (\<exists>cfg entry c key parties.
      configFile e = FileJson cfg \<and> networks cfg (toLowerCase n) = Some entry \<and>
      truthyStr (url entry) \<and>
      readPrivateKey e (toLowerCase n) = Some key \<and> buildTransaction e c key = Built parties \<and>
      signatures (trace (deploy e n y)) =
        signatures (trace (deployFee e y (endpointOf entry) key parties)) \<and>
      requests (trace (deploy e n y)) =
        requests (trace (deployFee e y (endpointOf entry) key parties)))"
proof (cases "configFile e")
  case (FileJson cfg)
  show ?thesis
  proof (cases "networks cfg (toLowerCase n)")
    case None
    with FileJson deploy_stops [of e cfg n _ y] show ?thesis by auto
  next
    case (Some entry)
    show ?thesis
    proof (cases "truthyStr (url entry)")
      case True
      with FileJson Some deployBuild_late [of e y "toLowerCase n" cfg entry] show ?thesis
        by (auto simp: deploy_goes_on)
    next
      case False
      with FileJson Some deploy_stops [of e cfg n entry y] show ?thesis by auto
    qed
  qed
qed (simp_all add: deploy_def)

subsection \<open>The requests of an invocation\<close>

lemma deployFee_requests_shape:
  "requests (trace (deployFee e y ep key parties)) = [] \<or>
   (\<exists>pk. requests (trace (deployFee e y ep key parties)) = [(ep, AccountQuery pk)]) \<or>
   (\<exists>pk sp. requests (trace (deployFee e y ep key parties)) =
      (ep, AccountQuery pk) # requests (trace (deployConfirm e y ep sp)))"
proof -
  consider "requests (trace (deployFee e y ep key parties)) = []"
    | f where "requests (trace (deployFee e y ep key parties)) =
                 requests (trace (deployNonce e y ep key parties f))"
    using deployFee_requests [of e y ep key parties] by blast
  then show ?thesis
  proof cases
    case 1
    then show ?thesis by simp
  next
    case 2
    consider "requests (trace (deployNonce e y ep key parties f)) =
                [(ep, AccountQuery (derivePublicKey e key))]"
      | payer n where "requests (trace (deployNonce e y ep key parties f)) =
          (ep, AccountQuery (derivePublicKey e key)) #
          requests (trace (deploySign e y ep key parties f payer n))"
      using deployNonce_requests [of e y ep key parties f] by blast
    then show ?thesis
    proof cases
      case 1
      with 2 show ?thesis by simp
    next
      case n: 2
      from deploySign_requests [of e y ep key parties f payer n] n 2 show ?thesis
        by auto
    qed
  qed
qed

text \<open>
  An invocation sends nothing, or the account query alone, or the account query and then
  what the confirmation lets through.
\<close>

lemma deploy_requests_shape:
  "requests (trace (deploy e n y)) = [] \<or>
   (\<exists>ep pk. requests (trace (deploy e n y)) = [(ep, AccountQuery pk)]) \<or>
   (\<exists>ep pk sp. requests (trace (deploy e n y)) =
      (ep, AccountQuery pk) # requests (trace (deployConfirm e y ep sp)))"
proof -
  consider "requests (trace (deploy e n y)) = []"
    | ep key parties where
        "requests (trace (deploy e n y)) = requests (trace (deployFee e y ep key parties))"
    using deploy_late [of e n y] by blast
  then show ?thesis
  proof cases
    case 1
    then show ?thesis by simp
  next
    case 2
    with deployFee_requests_shape [of e y ep key parties] show ?thesis
      by (simp only:) blast
  qed
qed

lemma deploy_submits_at_most_once: "length (submissions (trace (deploy e n y))) \<le> 1"
proof -
  consider "requests (trace (deploy e n y)) = []"
    | ep pk where "requests (trace (deploy e n y)) = [(ep, AccountQuery pk)]"
    | ep pk sp where "requests (trace (deploy e n y)) =
        (ep, AccountQuery pk) # requests (trace (deployConfirm e y ep sp))"
    using deploy_requests_shape [of e n y] by blast
  then show ?thesis
  proof cases
    case 3
    with deployConfirm_requests [of e y ep sp] show ?thesis
      by (auto simp: submissions_def)
  qed (simp_all add: submissions_def)
qed

lemma deploy_no_submission:
  assumes "\<And>ep sp. requests (trace (deployConfirm e y ep sp)) = []"
  shows "submissions (trace (deploy e n y)) = []"
  using deploy_requests_shape [of e n y] assms
  by (auto simp: submissions_def)

section \<open>The fee of the signed transaction\<close>

text \<open>An input without white space is its own answer.\<close>

lemma inputResult_no_whitespace: "\<not> list_ex isWhiteSpace s \<Longrightarrow> inputResult s = s"
proof -
  assume h: "\<not> list_ex isWhiteSpace s"
  then have a: "dropWhile isWhiteSpace s = s"
    by (cases s) (auto simp: list_ex_iff)
  from h have "\<not> list_ex isWhiteSpace (rev s)" by (simp add: list_ex_iff)
  then have b: "dropWhile isWhiteSpace (rev s) = rev s"
    by (cases "rev s") (auto simp: list_ex_iff)
  have c: "\<And>t. CHR '' '' \<notin> set t \<Longrightarrow> replaceFirstSpace t = t"
  proof -
    fix t show "CHR '' '' \<notin> set t \<Longrightarrow> replaceFirstSpace t = t"
      by (induction t) auto
  qed
  have "isWhiteSpace CHR '' ''" by (simp add: isWhiteSpace_def)
  with h have "CHR '' '' \<notin> set s" by (auto simp: list_ex_iff)
  with a b c show ?thesis by (simp add: inputResult_def trim_def)
qed

text \<open>
  Claim C1, as the code has it. The fee handed to the signer is the answer of the fee
  prompt followed by nine \<open>0\<close> digits, joined as strings. The answer is the accepted
  input \<open>f\<close> trimmed (and without its first remaining space) when that is not empty, and
  \<open>f\<close> as typed otherwise, that is, when \<open>f\<close> is white space only. So the fee is
  \<open>f @ 000000000\<close> for every accepted \<open>f\<close> that has no white space.
\<close>

theorem fee_field_nine_zeros:
  assumes "feeInputs e = rejected @ f # rest"
      and "\<forall>b \<in> set rejected. validateFee b \<noteq> Valid"
      and "validateFee f = Valid"
  shows "(\<forall>s \<in> set (signatures (trace (deploy e network yes))).
            fee (fst s) = promptAnswer inputResult f @ ''000000000'') \<and>
         (snd (resolveNonce e (sendGraphQL (fetch e) ep (AccountQuery (derivePublicKey e key)))) =
            Answered n \<longrightarrow>
            map (fee \<circ> fst) (signatures (trace (deployFee e yes ep key parties))) =
              [promptAnswer inputResult f @ ''000000000'']) \<and>
         (inputResult f \<noteq> [] \<longrightarrow> promptAnswer inputResult f = inputResult f) \<and>
         (inputResult f = [] \<longrightarrow> promptAnswer inputResult f = f) \<and>
         (\<not> list_ex isWhiteSpace f \<longrightarrow> promptAnswer inputResult f = f)"
proof -
  from assms(3) have ne: "f \<noteq> []"
    by (auto simp: validateFee_def split: if_splits)
  then have pne: "promptAnswer inputResult f \<noteq> []"
    by (simp add: promptAnswer_def)
  from assms inputPrompt_first_valid [of rejected validateFee f inputResult rest]
  have a: "snd (inputPrompt validateFee inputResult (feeInputs e)) =
      Answered (promptAnswer inputResult f)"
    by simp
  have fee_stage: "\<And>ep key parties.
      \<forall>s \<in> set (signatures (trace (deployFee e yes ep key parties))).
         fee (fst s) = promptAnswer inputResult f @ ''000000000''"
    using a by (auto simp: deployFee_signatures deployNonce_signatures split: answer.splits)
  consider "signatures (trace (deploy e network yes)) = []"
    | ep' key' parties' where "signatures (trace (deploy e network yes)) =
        signatures (trace (deployFee e yes ep' key' parties'))"
    using deploy_late [of e network yes] by blast
  then have whole: "\<forall>s \<in> set (signatures (trace (deploy e network yes))).
            fee (fst s) = promptAnswer inputResult f @ ''000000000''"
  proof cases
    case 1
    then show ?thesis by simp
  next
    case 2
    with fee_stage [of ep' key' parties'] show ?thesis
      by simp
  qed
  have stage: "snd (resolveNonce e (sendGraphQL (fetch e) ep
          (AccountQuery (derivePublicKey e key)))) = Answered n \<longrightarrow>
            map (fee \<circ> fst) (signatures (trace (deployFee e yes ep key parties))) =
              [promptAnswer inputResult f @ ''000000000'']"
    using a pne by (simp add: deployFee_signatures deployNonce_signatures)
  have r: "(inputResult f \<noteq> [] \<longrightarrow> promptAnswer inputResult f = inputResult f) \<and>
         (inputResult f = [] \<longrightarrow> promptAnswer inputResult f = f)"
    by (simp add: promptAnswer_def)
  have w: "\<not> list_ex isWhiteSpace f \<longrightarrow> promptAnswer inputResult f = f"
    using inputResult_no_whitespace [of f] by (simp add: promptAnswer_def)
  from whole stage r w show ?thesis by blast
qed

text \<open>
  On the example project: 0.01 gives 0.01000000000, 1 gives 1000000000, and a space
  gives a space and the nine digits.
\<close>

theorem fee_field_nine_zeros_witness:
  "(feeInputs (exampleEnv\<lparr>feeInputs := [''abc'', ''0.01'']\<rparr>) = [''abc''] @ ''0.01'' # [] \<and>
    validateFee ''abc'' \<noteq> Valid \<and> validateFee ''0.01'' = Valid) \<and>
   map (fee \<circ> fst) (signatures (trace (deployFee (exampleEnv\<lparr>feeInputs := [''abc'', ''0.01'']\<rparr>)
      True ''https://example/graphql'' (JStr ''EKtestnet'') ''{}''))) = [''0.01000000000''] \<and>
   map (fee \<circ> fst) (signatures (trace (deploy (exampleEnv\<lparr>feeInputs := [''abc'', ''0.01'']\<rparr>)
      ''testnet'' True))) = [''0.01000000000''] \<and>
   (feeInputs (exampleEnv\<lparr>feeInputs := [''1'']\<rparr>) = [] @ ''1'' # [] \<and>
    validateFee ''1'' = Valid) \<and>
   map (fee \<circ> fst) (signatures (trace (deployFee (exampleEnv\<lparr>feeInputs := [''1'']\<rparr>)
      True ''https://example/graphql'' (JStr ''EKtestnet'') ''{}''))) = [''1000000000''] \<and>
   (feeInputs blankFeeEnv = [] @ '' '' # [] \<and> validateFee '' '' = Valid) \<and>
   map (fee \<circ> fst) (signatures (trace (deployFee blankFeeEnv
      True ''https://example/graphql'' (JStr ''EKtestnet'') ''{}''))) = ['' 000000000'']"
proof -
  let ?e1 = "exampleEnv\<lparr>feeInputs := [''abc'', ''0.01'']\<rparr>"
  let ?e2 = "exampleEnv\<lparr>feeInputs := [''1'']\<rparr>"
  let ?ep = "''https://example/graphql''"
  let ?key = "JStr ''EKtestnet''"
  have i1: "feeInputs ?e1 = [''abc''] @ ''0.01'' # []" by simp
  have i2: "feeInputs ?e2 = [] @ ''1'' # []" by simp
  have i3: "feeInputs blankFeeEnv = [] @ '' '' # []" by (simp add: blankFeeEnv_def)
  have v: "validateFee ''abc'' \<noteq> Valid" "validateFee ''0.01'' = Valid" "validateFee ''1'' = Valid"
    "validateFee '' '' = Valid"
    "promptAnswer inputResult ''0.01'' = ''0.01''" "promptAnswer inputResult ''1'' = ''1''"
    "promptAnswer inputResult '' '' = '' ''"
    by (simp_all add: prim_defs)
  have n1: "snd (resolveNonce ?e1 (sendGraphQL (fetch ?e1) ?ep
      (AccountQuery (derivePublicKey ?e1 ?key)))) = Answered (JStr ''3'')"
    by (simp add: resolveNonce_def prim_defs example_defs)
  have n2: "snd (resolveNonce ?e2 (sendGraphQL (fetch ?e2) ?ep
      (AccountQuery (derivePublicKey ?e2 ?key)))) = Answered (JStr ''3'')"
    by (simp add: resolveNonce_def prim_defs example_defs)
  have n3: "snd (resolveNonce blankFeeEnv (sendGraphQL (fetch blankFeeEnv) ?ep
      (AccountQuery (derivePublicKey blankFeeEnv ?key)))) = Answered (JStr ''3'')"
    by (simp add: resolveNonce_def prim_defs example_defs blankFeeEnv_def)
  from v have b1: "\<forall>b \<in> set [''abc'']. validateFee b \<noteq> Valid" by simp
  have b2: "\<forall>b \<in> set []. validateFee b \<noteq> Valid" by simp
  from fee_field_nine_zeros [OF i1 b1 v(2), where yes = True and ep = ?ep and key = ?key and
      n = "JStr ''3''" and parties = "''{}''"] n1 v
  have s1: "map (fee \<circ> fst) (signatures (trace (deployFee ?e1 True ?ep ?key ''{}''))) =
      [''0.01000000000'']"
    by simp
  from fee_field_nine_zeros [OF i2 b2 v(3), where yes = True and ep = ?ep and key = ?key and
      n = "JStr ''3''" and parties = "''{}''"] n2 v
  have s2: "map (fee \<circ> fst) (signatures (trace (deployFee ?e2 True ?ep ?key ''{}''))) =
      [''1000000000'']"
    by simp
  from fee_field_nine_zeros [OF i3 b2 v(4), where yes = True and ep = ?ep and key = ?key and
      n = "JStr ''3''" and parties = "''{}''"] n3 v
  have s3: "map (fee \<circ> fst) (signatures (trace (deployFee blankFeeEnv True ?ep ?key ''{}''))) =
      ['' 000000000'']"
    by simp
  have w: "map (fee \<circ> fst) (signatures (trace (deploy ?e1 ''testnet'' True))) =
      [''0.01000000000'']"
    by (simp add: stage_defs prim_defs example_defs Let_def)
  from i1 i2 i3 v s1 s2 s3 w show ?thesis by simp
qed

text \<open>
  The claim as first stated, that the fee is the accepted input itself followed by the
  nine digits, fails for an input with a space in front: the prompt accepts it, and the
  fee is made from the trimmed answer.
\<close>

theorem fee_padded_counterexample:
  "validateFee '' 1'' = Valid \<and>
   feeInputs paddedFeeEnv = ['' 1''] \<and>
   map (fee \<circ> fst) (signatures (trace (deploy paddedFeeEnv ''testnet'' True))) = [''1000000000''] \<and>
   ''1000000000'' \<noteq> '' 1'' @ ''000000000''"
  by (simp add: stage_defs prim_defs example_defs paddedFeeEnv_def Let_def)

section \<open>The contract resolver\<close>

text \<open>
  Claim C2. The decision of the contract resolver, in order: a contract name recorded for
  the alias (a non-empty string) is returned whatever the build contains, and there is
  no prompt; else, when the build has exactly one name, that name is returned; else
  (no name, or two and more) the empty string, which is falsy, is returned, and the
  operator is shown the select prompt over the discovered names, whose answer is the
  contract.
\<close>

theorem contract_resolver_policy:
  "(configuredContract cfg network = Some s \<and> s \<noteq> [] \<longrightarrow>
      chooseSmartContract cfg bld network = s \<and>
      selectPrompts (fst (resolveContract e cfg network)) = [] \<and>
      snd (resolveContract e cfg network) = Answered s) \<and>
   (\<not> truthyStr (configuredContract cfg network) \<and> smartContracts bld = [x] \<longrightarrow>
      chooseSmartContract cfg bld network = x) \<and>
   (\<not> truthyStr (configuredContract cfg network) \<and> length (smartContracts bld) \<noteq> 1 \<longrightarrow>
      chooseSmartContract cfg bld network = [] \<and>
      \<not> truthy (JStr (chooseSmartContract cfg bld network))) \<and>
   (\<not> truthyStr (configuredContract cfg network) \<and> length (discovered e) \<noteq> 1 \<longrightarrow>
      fst (resolveContract e cfg network) = [AskSelect (discovered e)] \<and>
      (selectAnswer e = Some chosen \<longrightarrow> snd (resolveContract e cfg network) = Answered chosen))"
  by (auto simp: chooseSmartContract_def resolveContract_def truthyStr_def Let_def
      split: option.splits list.splits)

text \<open>
  On the example project: a recorded \<open>Bar\<close> wins over a build that only has \<open>Foo\<close>;
  with nothing recorded, the single \<open>Foo\<close> is taken; with two names, the operator is
  asked and selects \<open>Baz\<close>.
\<close>

theorem contract_resolver_policy_witness:
  "(configuredContract barConfig ''testnet'' = Some ''Bar'' \<and> ''Bar'' \<noteq> []) \<and>
   chooseSmartContract barConfig \<lparr>smartContracts = [''Foo'']\<rparr> ''testnet'' = ''Bar'' \<and>
   selectPrompts (fst (resolveContract twoContractsEnv barConfig ''testnet'')) = [] \<and>
   (\<not> truthyStr (configuredContract exampleConfig ''testnet'') \<and>
    smartContracts \<lparr>smartContracts = [''Foo'']\<rparr> = [''Foo'']) \<and>
   chooseSmartContract exampleConfig \<lparr>smartContracts = [''Foo'']\<rparr> ''testnet'' = ''Foo'' \<and>
   length (smartContracts \<lparr>smartContracts = [''Foo'', ''Baz'']\<rparr>) \<noteq> 1 \<and>
   chooseSmartContract exampleConfig \<lparr>smartContracts = [''Foo'', ''Baz'']\<rparr> ''testnet'' = [] \<and>
   (length (discovered twoContractsEnv) \<noteq> 1 \<and> selectAnswer twoContractsEnv = Some ''Baz'') \<and>
   fst (resolveContract twoContractsEnv exampleConfig ''testnet'') =
     [AskSelect (discovered twoContractsEnv)] \<and>
   snd (resolveContract twoContractsEnv exampleConfig ''testnet'') = Answered ''Baz''"
proof -
  have a: "configuredContract barConfig ''testnet'' = Some ''Bar'' \<and> ''Bar'' \<noteq> []"
    by (simp add: barConfig_def configuredContract_def)
  have b: "\<not> truthyStr (configuredContract exampleConfig ''testnet'')"
    by (simp add: example_defs configuredContract_def truthyStr_def)
  have c: "length (discovered twoContractsEnv) \<noteq> 1 \<and> selectAnswer twoContractsEnv = Some ''Baz''"
    by (simp add: twoContractsEnv_def)
  from a b c
    contract_resolver_policy
      [where cfg = barConfig and network = "''testnet''" and s = "''Bar''" and
         bld = "\<lparr>smartContracts = [''Foo'']\<rparr>" and e = twoContractsEnv]
    contract_resolver_policy
      [where cfg = exampleConfig and network = "''testnet''" and x = "''Foo''" and
         bld = "\<lparr>smartContracts = [''Foo'']\<rparr>" and e = twoContractsEnv and chosen = "''Baz''"]
    contract_resolver_policy
      [where cfg = exampleConfig and network = "''testnet''" and
         bld = "\<lparr>smartContracts = [''Foo'', ''Baz'']\<rparr>" and e = twoContractsEnv]
  show ?thesis by simp
qed

section \<open>The confirmation gate\<close>

text \<open>
  Claim C3. Without the auto-confirm flag, every confirmation input whose lowercase form
  is neither \<open>yes\<close> nor \<open>y\<close> (the empty input included) ends the invocation at the gate
  as \<open>Aborted\<close>, and the invocation as a whole sends no submission request; the inputs
  \<open>YES\<close> and \<open>y\<close>, as every input whose lowercase form is \<open>yes\<close> or \<open>y\<close>, pass the
  gate to the submission; with the flag, the gate passes to the submission and shows
  no prompt.
\<close>

theorem confirmation_gate:
  "(\<not> yes \<and> confirmInput e = Some input \<and>
      toLowerCase input \<noteq> ''yes'' \<and> toLowerCase input \<noteq> ''y'' \<longrightarrow>
       deployConfirm e yes ep sp = finish [AskInput ''confirm'', Log AbortedMsg] Aborted \<and>
       submissions (trace (deploy e network yes)) = []) \<and>
   (\<not> yes \<and> confirmInput e = Some input \<and>
      (input = ''YES'' \<or> input = ''y'' \<or>
       toLowerCase input = ''yes'' \<or> toLowerCase input = ''y'') \<longrightarrow>
       deployConfirm e yes ep sp = emit [AskInput ''confirm''] (deploySend e ep sp)) \<and>
   (yes \<longrightarrow> deployConfirm e yes ep sp = deploySend e ep sp \<and>
      inputPrompts (trace (deployConfirm e yes ep sp)) = [])"
proof (intro conjI impI)
  assume h: "\<not> yes \<and> confirmInput e = Some input \<and>
    toLowerCase input \<noteq> ''yes'' \<and> toLowerCase input \<noteq> ''y''"
  then have g: "\<And>ep sp.
      deployConfirm e yes ep sp = finish [AskInput ''confirm'', Log AbortedMsg] Aborted"
    by (simp add: deployConfirm_def confirmResult_def)
  then show "deployConfirm e yes ep sp = finish [AskInput ''confirm'', Log AbortedMsg] Aborted" .
  from g show "submissions (trace (deploy e network yes)) = []"
    by (intro deploy_no_submission) simp
next
  assume "\<not> yes \<and> confirmInput e = Some input \<and>
    (input = ''YES'' \<or> input = ''y'' \<or>
     toLowerCase input = ''yes'' \<or> toLowerCase input = ''y'')"
  moreover have "toLowerCase ''YES'' = ''yes''" "toLowerCase ''y'' = ''y''"
    by (simp_all add: prim_defs)
  ultimately show "deployConfirm e yes ep sp = emit [AskInput ''confirm''] (deploySend e ep sp)"
    by (auto simp: deployConfirm_def confirmResult_def afterConfirm_def)
next
  assume yes
  then show "deployConfirm e yes ep sp = deploySend e ep sp"
    by (simp add: deployConfirm_def afterConfirm_def)
next
  assume yes
  then show "inputPrompts (trace (deployConfirm e yes ep sp)) = []"
    by (simp add: deployConfirm_def afterConfirm_def deploySend_proj)
qed

text \<open>
  On the example project: \<open>no\<close> aborts and nothing is submitted, \<open>YES\<close> passes, and so
  does the flag.
\<close>

theorem confirmation_gate_witness:
  "(\<not> False \<and> confirmInput (exampleEnv\<lparr>confirmInput := Some ''no''\<rparr>) = Some ''no'' \<and>
      toLowerCase ''no'' \<noteq> ''yes'' \<and> toLowerCase ''no'' \<noteq> ''y'') \<and>
   deployConfirm (exampleEnv\<lparr>confirmInput := Some ''no''\<rparr>) False
       ''https://example/graphql'' ''{}'' =
     finish [AskInput ''confirm'', Log AbortedMsg] Aborted \<and>
   submissions (trace (deploy (exampleEnv\<lparr>confirmInput := Some ''no''\<rparr>) ''testnet'' False)) = [] \<and>
   outcome (deploy (exampleEnv\<lparr>confirmInput := Some ''no''\<rparr>) ''testnet'' False) = Aborted \<and>
   (confirmInput (exampleEnv\<lparr>confirmInput := Some ''YES''\<rparr>) = Some ''YES'' \<and>
    deployConfirm (exampleEnv\<lparr>confirmInput := Some ''YES''\<rparr>) False
        ''https://example/graphql'' ''{}'' =
      emit [AskInput ''confirm'']
        (deploySend (exampleEnv\<lparr>confirmInput := Some ''YES''\<rparr>) ''https://example/graphql'' ''{}'')) \<and>
   deployConfirm exampleEnv True ''https://example/graphql'' ''{}'' =
     deploySend exampleEnv ''https://example/graphql'' ''{}''"
proof -
  let ?no = "exampleEnv\<lparr>confirmInput := Some ''no''\<rparr>"
  let ?YES = "exampleEnv\<lparr>confirmInput := Some ''YES''\<rparr>"
  have h: "\<not> False \<and> confirmInput ?no = Some ''no'' \<and>
      toLowerCase ''no'' \<noteq> ''yes'' \<and> toLowerCase ''no'' \<noteq> ''y''"
    by (simp add: prim_defs)
  have o: "outcome (deploy ?no ''testnet'' False) = Aborted"
    by (simp add: stage_defs prim_defs example_defs Let_def)
  have y: "confirmInput ?YES = Some ''YES''" by simp
  from h o y
    confirmation_gate [of False ?no "''no''" "''https://example/graphql''" "''{}''" "''testnet''"]
    confirmation_gate [of False ?YES "''YES''" "''https://example/graphql''" "''{}''" "''testnet''"]
    confirmation_gate [of True exampleEnv "''x''" "''https://example/graphql''" "''{}''" "''testnet''"]
  show ?thesis by simp
qed

section \<open>Unknown alias, missing url\<close>

text \<open>
  With a \<open>networks\<close> object in \<open>config.json\<close>, deploy stops at the entry point whenever
  the lowercased alias has no entry with a url: it prints that the alias was not found
  when the object has no property of that name, and that the url is missing when the
  property is an inherited one or an entry without a url. It sends no request, signs
  nothing and writes nothing.
\<close>

lemma deploy_prints_cause_and_stops:
  assumes "configFile e = FileJson cfg"
      and "lookupNetwork cfg (toLowerCase network) = Absent \<or>
           lookupNetwork cfg (toLowerCase network) = Inherited \<or>
           lookupNetwork cfg (toLowerCase network) = Own entry \<and> \<not> truthyStr (url entry)"
  shows "deploy e network yes =
           (if lookupNetwork cfg (toLowerCase network) = Absent
            then finish [Log NetworkNotFoundMsg, Log AddNetworkHintMsg] NetworkNotFound
            else finish [Log NoUrlMsg, Log CorrectConfigMsg] UrlMissing)"
    and "printed (trace (deploy e network yes)) \<noteq> []"
    and "requests (trace (deploy e network yes)) = []"
    and "signatures (trace (deploy e network yes)) = []"
    and "configWrites (trace (deploy e network yes)) = []"
  using assms by (auto simp: deploy_def Let_def)

text \<open>
  Without a \<open>networks\<close> object, reading the alias throws, and deploy ends with nothing
  printed, whatever the alias.
\<close>

lemma deploy_without_networks:
  assumes "configFile e = FileWithoutNetworks"
  shows "deploy e network yes = finish [] Uncaught"
  using assms by (simp add: deploy_def)

text \<open>
  Claim C4 fails on the code. On the example project with a \<open>config.json\<close> that keeps
  its aliases under \<open>deployAliases\<close> and has none, the alias \<open>testnet\<close> is absent; deploy
  ends on the TypeError of \<open>config.networks[network]\<close>, and no cause is printed. No
  request is sent and nothing is written.
\<close>

theorem deploy_without_networks_prints_no_cause:
  "deploy (exampleEnv\<lparr>configFile := FileWithoutNetworks\<rparr>) ''testnet'' True =
     finish [] Uncaught \<and>
   printed (trace (deploy (exampleEnv\<lparr>configFile := FileWithoutNetworks\<rparr>) ''testnet'' True)) = [] \<and>
   requests (trace (deploy (exampleEnv\<lparr>configFile := FileWithoutNetworks\<rparr>) ''testnet'' True)) = [] \<and>
   configWrites (trace (deploy (exampleEnv\<lparr>configFile := FileWithoutNetworks\<rparr>) ''testnet'' True)) = []"
  by (simp add: deploy_def)

section \<open>The nonce resolver\<close>







section \<open>The outcome of a submission\<close>

text \<open>What \<open>sendGraphQL\<close> returns, by what the network did.\<close>

lemma sendGraphQL_http_error:
  "world ep q = Settles t (Responds r) \<Longrightarrow> t < timeoutMs \<Longrightarrow> \<not> ok r \<Longrightarrow>
   body r = Some j \<Longrightarrow> getProp j ''errors'' = Some errs \<Longrightarrow>
   sendGraphQL world ep q = httpErrorResult r errs"
  by (simp add: sendGraphQL_def)

lemma sendGraphQL_transport_error:
  "world ep q = Pending \<or> world ep q = Settles t out \<and> (timeoutMs \<le> t \<or> out = Rejects err) \<Longrightarrow>
   \<exists>x. sendGraphQL world ep q = errorResult (JError x)"
  by (auto simp: sendGraphQL_def)

lemma sendGraphQL_success:
  "world ep q = Settles t (Responds r) \<Longrightarrow> t < timeoutMs \<Longrightarrow> ok r \<Longrightarrow> body r = Some j \<Longrightarrow>
   sendGraphQL world ep q = j"
  by (simp add: sendGraphQL_def)

text \<open>
  An error object of \<open>sendGraphQL\<close> has no \<open>data\<close>: reading \<open>.data.sendZkapp\<close> from it
  throws, and the callback returns the TypeError it caught. That value is truthy and
  has no \<open>kind\<close>, so the test for a failed transaction lets it through.
\<close>

lemma sendTxn_error_result:
  "sendTxn (errorResult x) = JError ''TypeError''"
  "sendTxn (httpErrorResult r errs) = JError ''TypeError''"
  by (simp_all add: sendTxn_def errorResult_def httpErrorResult_def)

lemma deploySend_error_result:
  assumes "sendGraphQL (fetch e) ep (ZkappMutation sp) = errorResult x \<or>
           sendGraphQL (fetch e) ep (ZkappMutation sp) = httpErrorResult r errs"
  shows "outcome (deploySend e ep sp) = Success JUndefined"
  using assms by (auto simp: deploySend_def Let_def sendTxn_error_result optProp_def)

text \<open>A transaction object that is not marked as an error is a success, with its hash.\<close>

lemma deploySend_success:
  assumes "sendGraphQL (fetch e) ep (ZkappMutation sp) =
             JObj [(''data'', JObj [(''sendZkapp'', JObj [(''zkapp'', JObj txn)])])]"
      and "map_of txn ''kind'' \<noteq> Some (JStr ''error'')"
      and "map_of txn ''hash'' = Some h"
  shows "outcome (deploySend e ep sp) = Success h"
  using assms by (auto simp: deploySend_def Let_def sendTxn_def optProp_def split: option.splits)

text \<open>A missing transaction object and one of kind \<open>error\<close> are reported as failures.\<close>

lemma submission_payload_failure_reported:
  "outcome (deploy (exampleEnv\<lparr>fetch := submitWorld (zkappReply JNull)\<rparr>) ''testnet'' True) =
     SendFailed \<and>
   outcome (deploy (exampleEnv\<lparr>fetch :=
       submitWorld (zkappReply (JObj [(''kind'', JStr ''error'')]))\<rparr>) ''testnet'' True) =
     SendFailed"
  by (simp add: stage_defs prim_defs example_defs submitWorld_def graphqlErrors_def Let_def)

text \<open>
  Claim C6, which the code does not meet. The claim: a submission that fails is an error
  result and is reported as a failure, a success carries the hash, and nothing is
  retried. The code: on the example project, a submission answered with status 200 and a
  payload with \<open>errors\<close> and no data (no transaction object), one answered with status
  500, one that is never answered and one that the transport rejects all end with the
  success message, the hash being \<open>undefined\<close>.
\<close>

theorem submission_failure_reported_as_success:
  "outcome (deploy (exampleEnv\<lparr>fetch := submitWorld (jsonReply 300 200 graphqlErrors)\<rparr>)
      ''testnet'' True) = Success JUndefined \<and>
   printed (trace (deploy (exampleEnv\<lparr>fetch := submitWorld (jsonReply 300 200 graphqlErrors)\<rparr>)
      ''testnet'' True)) = [OnlyContractMsg ''Foo'', ConfigUpdatedMsg, SuccessMsg JUndefined] \<and>
   submissions (trace (deploy (exampleEnv\<lparr>fetch :=
      submitWorld (jsonReply 300 200 graphqlErrors)\<rparr>) ''testnet'' True)) =
      [(''https://example/graphql'', ZkappMutation ''{}'')] \<and>
   outcome (deploy (exampleEnv\<lparr>fetch := submitWorld (jsonReply 300 500 graphqlErrors)\<rparr>)
      ''testnet'' True) = Success JUndefined \<and>
   outcome (deploy (exampleEnv\<lparr>fetch := submitWorld Pending\<rparr>) ''testnet'' True) =
      Success JUndefined \<and>
   outcome (deploy (exampleEnv\<lparr>fetch := submitWorld (Settles 40 (Rejects ''FetchError''))\<rparr>)
      ''testnet'' True) = Success JUndefined"
  by (simp add: stage_defs prim_defs example_defs submitWorld_def graphqlErrors_def Let_def)

section \<open>The bound on a network call\<close>

lemma sendGraphQL_aborted:
  assumes "world ep q = Pending \<or> world ep q = Settles t out \<and> 20000 < t"
  shows "sendGraphQL world ep q = errorResult (JError ''AbortError'')"
  using assms by (auto simp: sendGraphQL_def timeoutMs_def)

lemma sendGraphQL_in_time:
  assumes "world ep q = Settles t (Responds r)" "t < 20000" "ok r" "body r = Some j"
  shows "sendGraphQL world ep q = j"
  using assms by (simp add: sendGraphQL_def timeoutMs_def)

lemma resolveNonce_asks:
  assumes "\<not> truthy (accountNonce response)"
  shows "\<exists>es a. resolveNonce e response = (AskInput ''nonce'' # es, a) \<and> inputPrompts es = [] \<and>
           requests es = []"
proof (cases "inputPrompt validateNonce inputResult (nonceInputs e)")
  case (Pair es a)
  then have "inputPrompts es = []" "requests es = []"
    by (auto dest: inputPrompt_quiet)
  with Pair assms show ?thesis
    by (cases a) (simp_all add: resolveNonce_def)
qed

lemma deployNonce_after_abort:
  assumes "fetch e ep (AccountQuery (derivePublicKey e key)) = Pending \<or>
           fetch e ep (AccountQuery (derivePublicKey e key)) = Settles t out \<and> 20000 < t"
  shows "hd (requests (trace (deployNonce e yes ep key parties f))) =
           (ep, AccountQuery (derivePublicKey e key))"
    and "requests (trace (deployNonce e yes ep key parties f)) \<noteq> []"
    and "hd (inputPrompts (trace (deployNonce e yes ep key parties f))) = ''nonce''"
    and "inputPrompts (trace (deployNonce e yes ep key parties f)) \<noteq> []"
proof -
  let ?r = "sendGraphQL (fetch e) ep (AccountQuery (derivePublicKey e key))"
  from assms have r: "?r = errorResult (JError ''AbortError'')"
    by (rule sendGraphQL_aborted)
  then have "\<not> truthy (accountNonce ?r)"
    by (simp add: accountNonce_def optProp_def errorResult_def)
  from resolveNonce_asks [OF this, of e] obtain es a where
    n: "resolveNonce e ?r = (AskInput ''nonce'' # es, a)" and q: "inputPrompts es = []"
    by blast
  show "hd (requests (trace (deployNonce e yes ep key parties f))) =
           (ep, AccountQuery (derivePublicKey e key))"
    and "requests (trace (deployNonce e yes ep key parties f)) \<noteq> []"
    by (simp_all add: deployNonce_def Let_def)
  from n q show "hd (inputPrompts (trace (deployNonce e yes ep key parties f))) = ''nonce''"
    and "inputPrompts (trace (deployNonce e yes ep key parties f)) \<noteq> []"
    by (cases a; simp add: deployNonce_def Let_def)+
qed

text \<open>
  Claim C7. The timer of \<open>sendGraphQL\<close> is set to 20000 milliseconds. A request that never
  settles, or settles after more than 20000 milliseconds, makes \<open>sendGraphQL\<close> return
  the error object of the abort, of kind \<open>error\<close>; a request that settles sooner is not
  aborted: its answer, or the error it was rejected with, is what \<open>sendGraphQL\<close> returns.
  Both network calls of the pipeline are under that bound. When the account query
  exceeds it, \<open>deployNonce\<close> has issued the query and goes on to ask the operator for
  the nonce; when the query is answered in time with a nonce, that nonce is signed with.
  When the submission exceeds the bound, \<open>deploySend\<close> has issued it, ends the step and
  returns; what it prints then is the success message with no hash, as after every
  submission that failed on the way. When the submission is answered in time with the
  record of the transaction, its hash is reported.
\<close>

theorem network_calls_bounded:
  "timeoutMs = 20000 \<and>
   (world ep q = Pending \<or> world ep q = Settles t out \<and> 20000 < t \<longrightarrow>
      sendGraphQL world ep q = errorResult (JError ''AbortError'') \<and>
      getProp (sendGraphQL world ep q) ''kind'' = Some (JStr ''error'')) \<and>
   (world ep q = Settles t (Responds r) \<and> t < 20000 \<and> ok r \<and> body r = Some j \<longrightarrow>
      sendGraphQL world ep q = j) \<and>
   (world ep q = Settles t (Rejects err) \<and> t < 20000 \<longrightarrow>
      sendGraphQL world ep q = errorResult (JError err)) \<and>
   (fetch e ep (AccountQuery (derivePublicKey e key)) = Pending \<or>
    fetch e ep (AccountQuery (derivePublicKey e key)) = Settles t out \<and> 20000 < t \<longrightarrow>
      requests (trace (deployNonce e yes ep key parties f)) \<noteq> [] \<and>
      hd (requests (trace (deployNonce e yes ep key parties f))) =
        (ep, AccountQuery (derivePublicKey e key)) \<and>
      inputPrompts (trace (deployNonce e yes ep key parties f)) \<noteq> [] \<and>
      hd (inputPrompts (trace (deployNonce e yes ep key parties f))) = ''nonce'') \<and>
   (fetch e ep (AccountQuery (derivePublicKey e key)) = Settles t (Responds r) \<and> t < 20000 \<and>
    ok r \<and> body r = Some j \<and> truthy (accountNonce j) \<longrightarrow>
      hd (requests (trace (deployNonce e yes ep key parties f))) =
        (ep, AccountQuery (derivePublicKey e key)) \<and>
      map (nonce \<circ> fst) (signatures (trace (deployNonce e yes ep key parties f))) =
        [accountNonce j]) \<and>
   (fetch e ep (ZkappMutation sp) = Pending \<or>
    fetch e ep (ZkappMutation sp) = Settles t out \<and> 20000 < t \<longrightarrow>
      deploySend e ep sp =
        emit [NetRequest ep (ZkappMutation sp), StepDone ''Send to network'']
          (finish [Log (SuccessMsg JUndefined)] (Success JUndefined))) \<and>
   (fetch e ep (ZkappMutation sp) = Settles t (Responds r) \<and> t < 20000 \<and> ok r \<and>
    body r = Some (JObj [(''data'', JObj [(''sendZkapp'', JObj [(''zkapp'', JObj txn)])])]) \<and>
    map_of txn ''kind'' \<noteq> Some (JStr ''error'') \<and> map_of txn ''hash'' = Some h \<longrightarrow>
      deploySend e ep sp =
        emit [NetRequest ep (ZkappMutation sp), StepDone ''Send to network'']
          (finish [Log (SuccessMsg h)] (Success h)))"
proof (intro conjI impI)
  show "timeoutMs = 20000" by (simp add: timeoutMs_def)
next
  assume a: "world ep q = Pending \<or> world ep q = Settles t out \<and> 20000 < t"
  then show s: "sendGraphQL world ep q = errorResult (JError ''AbortError'')"
    by (rule sendGraphQL_aborted)
  then show "getProp (sendGraphQL world ep q) ''kind'' = Some (JStr ''error'')"
    by (simp add: errorResult_def)
next
  assume "world ep q = Settles t (Responds r) \<and> t < 20000 \<and> ok r \<and> body r = Some j"
  then show "sendGraphQL world ep q = j"
    by (simp add: sendGraphQL_in_time)
next
  assume "world ep q = Settles t (Rejects err) \<and> t < 20000"
  then show "sendGraphQL world ep q = errorResult (JError err)"
    by (simp add: sendGraphQL_def timeoutMs_def)
next
  assume a: "fetch e ep (AccountQuery (derivePublicKey e key)) = Pending \<or>
    fetch e ep (AccountQuery (derivePublicKey e key)) = Settles t out \<and> 20000 < t"
  show "requests (trace (deployNonce e yes ep key parties f)) \<noteq> []"
    by (rule deployNonce_after_abort(2) [OF a])
  show "hd (requests (trace (deployNonce e yes ep key parties f))) =
        (ep, AccountQuery (derivePublicKey e key))"
    by (rule deployNonce_after_abort(1) [OF a])
  show "inputPrompts (trace (deployNonce e yes ep key parties f)) \<noteq> []"
    by (rule deployNonce_after_abort(4) [OF a])
  show "hd (inputPrompts (trace (deployNonce e yes ep key parties f))) = ''nonce''"
    by (rule deployNonce_after_abort(3) [OF a])
next
  assume a: "fetch e ep (AccountQuery (derivePublicKey e key)) = Settles t (Responds r) \<and>
    t < 20000 \<and> ok r \<and> body r = Some j \<and> truthy (accountNonce j)"
  show "hd (requests (trace (deployNonce e yes ep key parties f))) =
        (ep, AccountQuery (derivePublicKey e key))"
    by (simp add: deployNonce_def Let_def)
  from a have "sendGraphQL (fetch e) ep (AccountQuery (derivePublicKey e key)) = j"
    by (simp add: sendGraphQL_in_time)
  with a show "map (nonce \<circ> fst) (signatures (trace (deployNonce e yes ep key parties f))) =
        [accountNonce j]"
    by (simp add: deployNonce_signatures resolveNonce_def)
next
  assume "fetch e ep (ZkappMutation sp) = Pending \<or>
    fetch e ep (ZkappMutation sp) = Settles t out \<and> 20000 < t"
  then have "sendGraphQL (fetch e) ep (ZkappMutation sp) = errorResult (JError ''AbortError'')"
    by (rule sendGraphQL_aborted)
  then show "deploySend e ep sp =
        emit [NetRequest ep (ZkappMutation sp), StepDone ''Send to network'']
          (finish [Log (SuccessMsg JUndefined)] (Success JUndefined))"
    by (simp add: deploySend_def Let_def sendTxn_def errorResult_def optProp_def)
next
  assume a: "fetch e ep (ZkappMutation sp) = Settles t (Responds r) \<and> t < 20000 \<and> ok r \<and>
    body r = Some (JObj [(''data'', JObj [(''sendZkapp'', JObj [(''zkapp'', JObj txn)])])]) \<and>
    map_of txn ''kind'' \<noteq> Some (JStr ''error'') \<and> map_of txn ''hash'' = Some h"
  then have "sendGraphQL (fetch e) ep (ZkappMutation sp) =
      JObj [(''data'', JObj [(''sendZkapp'', JObj [(''zkapp'', JObj txn)])])]"
    by (simp add: sendGraphQL_in_time)
  with a show "deploySend e ep sp =
        emit [NetRequest ep (ZkappMutation sp), StepDone ''Send to network'']
          (finish [Log (SuccessMsg h)] (Success h))"
    by (auto simp: deploySend_def Let_def sendTxn_def optProp_def split: option.splits)
qed


text \<open>
  On the example project: an account query that is never answered and one answered after
  150 milliseconds; a submission answered after 20001 milliseconds, which is given up,
  and the same answer after 19999 milliseconds, which is taken.
\<close>

theorem network_calls_bounded_witness:
  "fetch promptedNonceEnv ''https://example/graphql''
      (AccountQuery (derivePublicKey promptedNonceEnv (JStr ''EKtestnet''))) = Pending \<and>
   hd (requests (trace (deployNonce promptedNonceEnv True ''https://example/graphql''
      (JStr ''EKtestnet'') ''{}'' ''0.05''))) =
     (''https://example/graphql'',
      AccountQuery (derivePublicKey promptedNonceEnv (JStr ''EKtestnet''))) \<and>
   hd (inputPrompts (trace (deployNonce promptedNonceEnv True ''https://example/graphql''
      (JStr ''EKtestnet'') ''{}'' ''0.05''))) = ''nonce'' \<and>
   (fetch exampleEnv ''https://example/graphql''
      (AccountQuery (derivePublicKey exampleEnv (JStr ''EKtestnet''))) =
      Settles 150 (Responds \<lparr>status = 200, statusText = ''-'', body = Some
        (JObj [(''data'', JObj [(''account'',
           JObj [(''publicKey'', JStr ''B62q''), (''nonce'', JStr ''3'')])])])\<rparr>) \<and>
    (150 :: nat) < 20000) \<and>
   map (nonce \<circ> fst) (signatures (trace (deployNonce exampleEnv True ''https://example/graphql''
      (JStr ''EKtestnet'') ''{}'' ''0.05''))) = [JStr ''3''] \<and>
   (fetch (submitAfterEnv 20001) ''https://example/graphql'' (ZkappMutation ''{}'') =
      Settles 20001 (Responds \<lparr>status = 200, statusText = ''-'', body = Some
        (JObj [(''data'', JObj [(''sendZkapp'', JObj [(''zkapp'',
           JObj [(''id'', JStr ''2''), (''hash'', JStr ''0xdef'')])])])])\<rparr>) \<and>
    (20000 :: nat) < 20001) \<and>
   sendGraphQL (fetch (submitAfterEnv 20001)) ''https://example/graphql'' (ZkappMutation ''{}'') =
     errorResult (JError ''AbortError'') \<and>
   deploySend (submitAfterEnv 20001) ''https://example/graphql'' ''{}'' =
     emit [NetRequest ''https://example/graphql'' (ZkappMutation ''{}''),
           StepDone ''Send to network'']
       (finish [Log (SuccessMsg JUndefined)] (Success JUndefined)) \<and>
   (fetch (submitAfterEnv 19999) ''https://example/graphql'' (ZkappMutation ''{}'') =
      Settles 19999 (Responds \<lparr>status = 200, statusText = ''-'', body = Some
        (JObj [(''data'', JObj [(''sendZkapp'', JObj [(''zkapp'',
           JObj [(''id'', JStr ''2''), (''hash'', JStr ''0xdef'')])])])])\<rparr>) \<and>
    (19999 :: nat) < 20000) \<and>
   deploySend (submitAfterEnv 19999) ''https://example/graphql'' ''{}'' =
     emit [NetRequest ''https://example/graphql'' (ZkappMutation ''{}''),
           StepDone ''Send to network'']
       (finish [Log (SuccessMsg (JStr ''0xdef''))] (Success (JStr ''0xdef'')))"
proof -
  let ?ep = "''https://example/graphql''"
  let ?key = "JStr ''EKtestnet''"
  let ?acc = "JObj [(''data'', JObj [(''account'',
           JObj [(''publicKey'', JStr ''B62q''), (''nonce'', JStr ''3'')])])]"
  let ?ra = "\<lparr>status = 200, statusText = ''-'', body = Some ?acc\<rparr>"
  let ?txn = "[(''id'', JStr ''2''), (''hash'', JStr ''0xdef'')]"
  let ?rs = "\<lparr>status = 200, statusText = ''-'', body = Some
        (JObj [(''data'', JObj [(''sendZkapp'', JObj [(''zkapp'', JObj ?txn)])])])\<rparr>"
  have p: "fetch promptedNonceEnv ?ep (AccountQuery (derivePublicKey promptedNonceEnv ?key)) =
      Pending"
    by (simp add: promptedNonceEnv_def silentWorld_def)
  have a: "fetch exampleEnv ?ep (AccountQuery (derivePublicKey exampleEnv ?key)) =
      Settles 150 (Responds ?ra)"
    by (simp add: exampleEnv_def exampleWorld_def accountReply_def jsonReply_def)
  have a': "(150 :: nat) < 20000" "ok ?ra" "body ?ra = Some ?acc" "truthy (accountNonce ?acc)"
    "accountNonce ?acc = JStr ''3''"
    by (simp_all add: ok_def accountNonce_def optProp_def)
  have l: "fetch (submitAfterEnv 20001) ?ep (ZkappMutation ''{}'') = Settles 20001 (Responds ?rs)"
    by (simp add: submitAfterEnv_def submitWorld_def jsonReply_def)
  have l': "(20000 :: nat) < 20001" by simp
  have s: "fetch (submitAfterEnv 19999) ?ep (ZkappMutation ''{}'') = Settles 19999 (Responds ?rs)"
    by (simp add: submitAfterEnv_def submitWorld_def jsonReply_def)
  have s': "(19999 :: nat) < 20000" "ok ?rs"
    "body ?rs = Some (JObj [(''data'', JObj [(''sendZkapp'', JObj [(''zkapp'', JObj ?txn)])])])"
    "map_of ?txn ''kind'' \<noteq> Some (JStr ''error'')" "map_of ?txn ''hash'' = Some (JStr ''0xdef'')"
    by (simp_all add: ok_def)
  note t1 = network_calls_bounded [where e = promptedNonceEnv and ep = ?ep and key = ?key and
      yes = True and parties = "''{}''" and f = "''0.05''"]
  note t2 = network_calls_bounded [where e = exampleEnv and ep = ?ep and key = ?key and
      yes = True and parties = "''{}''" and f = "''0.05''" and t = 150 and r = ?ra and j = ?acc]
  note t3 = network_calls_bounded [where e = "submitAfterEnv 20001" and ep = ?ep and
      sp = "''{}''" and t = 20001 and out = "Responds ?rs" and
      world = "fetch (submitAfterEnv 20001)" and q = "ZkappMutation ''{}''"]
  note t4 = network_calls_bounded [where e = "submitAfterEnv 19999" and ep = ?ep and
      sp = "''{}''" and t = 19999 and r = ?rs and txn = ?txn and h = "JStr ''0xdef''"]
  from t1 p have c1: "hd (requests (trace (deployNonce promptedNonceEnv True ?ep ?key
      ''{}'' ''0.05''))) = (?ep, AccountQuery (derivePublicKey promptedNonceEnv ?key))"
    "hd (inputPrompts (trace (deployNonce promptedNonceEnv True ?ep ?key ''{}'' ''0.05''))) =
      ''nonce''"
    by blast+
  from t2 a a' have "map (nonce \<circ> fst) (signatures (trace (deployNonce exampleEnv True ?ep ?key
      ''{}'' ''0.05''))) = [accountNonce ?acc]"
    by blast
  with a' have c2: "map (nonce \<circ> fst) (signatures (trace (deployNonce exampleEnv True ?ep ?key
      ''{}'' ''0.05''))) = [JStr ''3'']"
    by simp
  from t3 l l' have c3: "sendGraphQL (fetch (submitAfterEnv 20001)) ?ep (ZkappMutation ''{}'') =
     errorResult (JError ''AbortError'')"
    "deploySend (submitAfterEnv 20001) ?ep ''{}'' =
     emit [NetRequest ?ep (ZkappMutation ''{}''), StepDone ''Send to network'']
       (finish [Log (SuccessMsg JUndefined)] (Success JUndefined))"
    by blast+
  from t4 s s' have c4: "deploySend (submitAfterEnv 19999) ?ep ''{}'' =
     emit [NetRequest ?ep (ZkappMutation ''{}''), StepDone ''Send to network'']
       (finish [Log (SuccessMsg (JStr ''0xdef''))] (Success (JStr ''0xdef'')))"
    by blast
  from p c1 a a'(1) c2 l l' c3 s s'(1) c4 show ?thesis
    by (intro conjI)
qed

section \<open>Persistence of the contract choice\<close>

text \<open>Where \<open>config.json\<close> is written and where the select prompt is shown.\<close>

lemma resolveContract_quiet:
  "configWrites (fst (resolveContract e cfg n)) = []"
  by (simp add: resolveContract_def Let_def split: option.splits)

lemma deployPersist_writes:
  "configWrites (trace (deployPersist e y n cfg entry c)) =
     (if smartContract entry \<noteq> Some c
      then [cfg\<lparr>networks := (networks cfg)(n \<mapsto> entry\<lparr>smartContract := Some c\<rparr>)\<rparr>] else [])"
  "selectPrompts (trace (deployPersist e y n cfg entry c)) = []"
  by (simp_all add: deployPersist_def deployImport_quiet)

lemma deployContract_writes:
  "configWrites (trace (deployContract e y n cfg entry)) =
     (case snd (resolveContract e cfg n) of
        Cancelled \<Rightarrow> []
      | Answered c \<Rightarrow> configWrites (trace (deployPersist e y n cfg entry c)))"
  "selectPrompts (trace (deployContract e y n cfg entry)) =
     selectPrompts (fst (resolveContract e cfg n))"
  using resolveContract_quiet [of e cfg n]
  by (auto simp: deployContract_def deployPersist_writes split: prod.splits answer.splits)

lemma deployBuild_writes:
  "configWrites (trace (deployBuild e y n cfg entry)) =
     (if buildSucceeds e then configWrites (trace (deployContract e y n cfg entry)) else [])"
  "selectPrompts (trace (deployBuild e y n cfg entry)) =
     (if buildSucceeds e then selectPrompts (trace (deployContract e y n cfg entry)) else [])"
  by (simp_all add: deployBuild_def)

lemma deploy_writes:
  assumes "configFile e = FileJson cfg" "networks cfg (toLowerCase n) = Some entry"
    "truthyStr (url entry)"
  shows "configWrites (trace (deploy e n y)) =
           configWrites (trace (deployBuild e y (toLowerCase n) cfg entry))"
    and "selectPrompts (trace (deploy e n y)) =
           selectPrompts (trace (deployBuild e y (toLowerCase n) cfg entry))"
  using assms by (simp_all add: deploy_goes_on)

lemma deploy_quiet_without_entry:
  assumes "configFile e = FileJson cfg" "networks cfg (toLowerCase n) = Some entry"
    "\<not> truthyStr (url entry)"
  shows "configWrites (trace (deploy e n y)) = []" "selectPrompts (trace (deploy e n y)) = []"
  using assms by (simp_all add: deploy_def Let_def lookupNetwork_def)

text \<open>
  Claim C8. When an alias that has no contract recorded is deployed and a contract name
  is resolved, the configuration with that name recorded under the alias is written to
  \<open>config.json\<close>, once. Every later deploy of the alias, spelled in any case, with that
  configuration resolves the same name whatever the build contains and whatever else the
  project does, shows no select prompt and does not write \<open>config.json\<close>.
\<close>

theorem contract_choice_persisted_once:
  assumes "configFile e1 = FileJson cfg"
      and "networks cfg (toLowerCase n1) = Some entry"
      and "truthyStr (url entry)"
      and "buildSucceeds e1"
      and "\<not> truthyStr (smartContract entry)"
      and "snd (resolveContract e1 cfg (toLowerCase n1)) = Answered name"
      and "name \<noteq> []"
      and "cfg' = cfg\<lparr>networks := (networks cfg)(toLowerCase n1 \<mapsto> entry\<lparr>smartContract := Some name\<rparr>)\<rparr>"
  shows "configWrites (trace (deploy e1 n1 y1)) = [cfg'] \<and>
         (configFile e2 = FileJson cfg' \<and> toLowerCase n2 = toLowerCase n1 \<longrightarrow>
            chooseSmartContract cfg' \<lparr>smartContracts = discovered e2\<rparr> (toLowerCase n2) = name \<and>
            snd (resolveContract e2 cfg' (toLowerCase n2)) = Answered name \<and>
            selectPrompts (trace (deploy e2 n2 y2)) = [] \<and>
            configWrites (trace (deploy e2 n2 y2)) = [])"
proof (intro conjI impI)
  from assms(5,7) have "smartContract entry \<noteq> Some name"
    by (auto simp: truthyStr_def)
  with assms show "configWrites (trace (deploy e1 n1 y1)) = [cfg']"
    by (simp add: deploy_writes deployBuild_writes deployContract_writes deployPersist_writes)
next
  assume h: "configFile e2 = FileJson cfg' \<and> toLowerCase n2 = toLowerCase n1"
  let ?entry' = "entry\<lparr>smartContract := Some name\<rparr>"
  from assms(8) h have l: "networks cfg' (toLowerCase n2) = Some ?entry'" by simp
  then have cc: "configuredContract cfg' (toLowerCase n2) = Some name"
    by (simp add: configuredContract_def)
  with assms(7) show c: "chooseSmartContract cfg' \<lparr>smartContracts = discovered e2\<rparr> (toLowerCase n2) = name"
    by (simp add: chooseSmartContract_def truthyStr_def)
  with assms(7) show r: "snd (resolveContract e2 cfg' (toLowerCase n2)) = Answered name"
    by (simp add: resolveContract_def Let_def)
  from c assms(7) have s: "selectPrompts (fst (resolveContract e2 cfg' (toLowerCase n2))) = []"
    by (simp add: resolveContract_def Let_def)
  have u: "truthyStr (url ?entry')" using assms(3) by simp
  from h l u s show "selectPrompts (trace (deploy e2 n2 y2)) = []"
    by (simp add: deploy_writes [of e2 cfg' n2 ?entry'] deployBuild_writes deployContract_writes)
  from h l u r show "configWrites (trace (deploy e2 n2 y2)) = []"
    by (simp add: deploy_writes [of e2 cfg' n2 ?entry'] deployBuild_writes deployContract_writes
        deployPersist_writes)
qed

text \<open>
  On the example project: the first deploy records \<open>Foo\<close>; a later deploy, of the alias
  in capitals and with two contracts in the build, asks nothing and writes nothing.
\<close>

theorem contract_choice_persisted_once_witness:
  "(configFile exampleEnv = FileJson exampleConfig \<and>
    networks exampleConfig (toLowerCase ''testnet'') = Some exampleEntry \<and>
    truthyStr (url exampleEntry) \<and> buildSucceeds exampleEnv \<and>
    \<not> truthyStr (smartContract exampleEntry) \<and>
    snd (resolveContract exampleEnv exampleConfig (toLowerCase ''testnet'')) = Answered ''Foo'' \<and>
    ''Foo'' \<noteq> []) \<and>
   configWrites (trace (deploy exampleEnv ''testnet'' True)) = [fooConfig] \<and>
   (configFile (twoContractsEnv\<lparr>configFile := FileJson fooConfig\<rparr>) = FileJson fooConfig \<and>
    toLowerCase ''TESTNET'' = toLowerCase ''testnet'') \<and>
   snd (resolveContract (twoContractsEnv\<lparr>configFile := FileJson fooConfig\<rparr>) fooConfig
      (toLowerCase ''TESTNET'')) = Answered ''Foo'' \<and>
   selectPrompts (trace (deploy (twoContractsEnv\<lparr>configFile := FileJson fooConfig\<rparr>)
      ''TESTNET'' False)) = [] \<and>
   configWrites (trace (deploy (twoContractsEnv\<lparr>configFile := FileJson fooConfig\<rparr>)
      ''TESTNET'' False)) = []"
proof -
  let ?e2 = "twoContractsEnv\<lparr>configFile := FileJson fooConfig\<rparr>"
  have l: "toLowerCase ''testnet'' = ''testnet''" "toLowerCase ''TESTNET'' = ''testnet''"
    by (simp_all add: prim_defs)
  have a: "configFile exampleEnv = FileJson exampleConfig"
    by (simp add: exampleEnv_def)
  have b: "networks exampleConfig (toLowerCase ''testnet'') = Some exampleEntry"
    by (simp add: l exampleConfig_def)
  have c: "truthyStr (url exampleEntry)" "\<not> truthyStr (smartContract exampleEntry)"
    by (simp_all add: exampleEntry_def truthyStr_def)
  have d: "buildSucceeds exampleEnv"
    by (simp add: exampleEnv_def)
  have r: "snd (resolveContract exampleEnv exampleConfig (toLowerCase ''testnet'')) =
      Answered ''Foo''"
    by (simp add: l resolveContract_def chooseSmartContract_def configuredContract_def
        truthyStr_def Let_def example_defs)
  have n: "''Foo'' \<noteq> []" by simp
  have f: "fooConfig = exampleConfig\<lparr>networks :=
      (networks exampleConfig)(toLowerCase ''testnet'' \<mapsto>
         exampleEntry\<lparr>smartContract := Some ''Foo''\<rparr>)\<rparr>"
    by (simp add: l fooConfig_def exampleConfig_def)
  have g: "configFile ?e2 = FileJson fooConfig \<and> toLowerCase ''TESTNET'' = toLowerCase ''testnet''"
    by (simp add: l)
  from contract_choice_persisted_once [OF a b c(1) d c(2) r n f, where
      ?e2.0 = ?e2 and ?n2.0 = "''TESTNET''" and ?y1.0 = True and ?y2.0 = False] g
  have t: "configWrites (trace (deploy exampleEnv ''testnet'' True)) = [fooConfig]"
    "snd (resolveContract ?e2 fooConfig (toLowerCase ''TESTNET'')) = Answered ''Foo''"
    "selectPrompts (trace (deploy ?e2 ''TESTNET'' False)) = []"
    "configWrites (trace (deploy ?e2 ''TESTNET'' False)) = []"
    by blast+
  from a b c d r n g t show ?thesis by blast
qed

section \<open>The key file\<close>

text \<open>
  Whatever is signed is signed with the \<open>privateKey\<close> of \<open>keys/<alias>.json\<close> in the
  project directory, and no other file is read after the configuration.
\<close>

lemma deploy_signs_with_default_key_file:
  assumes "(fp, parties, key) \<in> set (signatures (trace (deploy e n y)))"
  shows "readPrivateKey e (toLowerCase n) = Some key"
proof -
  from assms have ne: "signatures (trace (deploy e n y)) \<noteq> []" by auto
  with deploy_late [of e n y] obtain entry key' parties' where
    k: "readPrivateKey e (toLowerCase n) = Some key'" and
    s: "signatures (trace (deploy e n y)) =
          signatures (trace (deployFee e y (endpointOf entry) key' parties'))"
    by auto
  from assms s have "key = key'"
    by (auto simp: deployFee_signatures deployNonce_signatures split: answer.splits if_splits)
  with k show ?thesis by simp
qed

lemma deploy_reads_default_key_file:
  "filesRead (trace (deploy e n y)) = [] \<or>
   filesRead (trace (deploy e n y)) = [keyFilePath e (toLowerCase n)]"
proof -
  have i: "\<And>ep c. filesRead (trace (deployImport e y (toLowerCase n) ep c)) = [] \<or>
      filesRead (trace (deployImport e y (toLowerCase n) ep c)) = [keyFilePath e (toLowerCase n)]"
    by (simp add: deployImport_def deployKey_quiet split: option.splits)
  have p: "\<And>cfg entry c. filesRead (trace (deployPersist e y (toLowerCase n) cfg entry c)) = [] \<or>
      filesRead (trace (deployPersist e y (toLowerCase n) cfg entry c)) =
        [keyFilePath e (toLowerCase n)]"
    using i by (simp add: deployPersist_def)
  have c: "\<And>cfg entry. filesRead (trace (deployContract e y (toLowerCase n) cfg entry)) = [] \<or>
      filesRead (trace (deployContract e y (toLowerCase n) cfg entry)) =
        [keyFilePath e (toLowerCase n)]"
  proof -
    fix cfg entry
    show "filesRead (trace (deployContract e y (toLowerCase n) cfg entry)) = [] \<or>
      filesRead (trace (deployContract e y (toLowerCase n) cfg entry)) =
        [keyFilePath e (toLowerCase n)]"
    proof (cases "resolveContract e cfg (toLowerCase n)")
      case (Pair es a)
      then have q: "filesRead es = []"
        by (auto simp: resolveContract_def Let_def split: if_splits option.splits)
      with Pair p show ?thesis
        by (cases a) (simp_all add: deployContract_def)
    qed
  qed
  have b: "\<And>cfg entry. filesRead (trace (deployBuild e y (toLowerCase n) cfg entry)) = [] \<or>
      filesRead (trace (deployBuild e y (toLowerCase n) cfg entry)) =
        [keyFilePath e (toLowerCase n)]"
    using c by (simp add: deployBuild_def)
  show ?thesis
    using b
    by (simp add: deploy_def Let_def lookupNetwork_def split: config_file.splits option.splits)
qed

text \<open>
  Claim C9, which the code does not meet. The claim: the private key is the
  \<open>privateKey\<close> of the file named by the \<open>keyPath\<close> of the alias. The code: on the
  example project with \<open>keyPath\<close> set to \<open>keys/other.json\<close>, the file read is
  \<open>keys/testnet.json\<close>, its key signs and its public key is queried; and where
  \<open>keys/other.json\<close> is the only key file, deploy stops with the message that tells the
  operator to correct \<open>keyPath\<close>. Only the \<open>privateKey\<close> property of the file is used.
\<close>

theorem key_file_is_not_the_one_of_keyPath:
  "networks otherKeyConfig ''testnet'' =
     Some (exampleEntry\<lparr>keyPath := Some ''keys/other.json''\<rparr>) \<and>
   readJSON otherKeyEnv ''/proj/keys/other.json'' =
     Some (JObj [(''privateKey'', JStr ''EKother''), (''publicKey'', JStr ''B62r'')]) \<and>
   filesRead (trace (deploy otherKeyEnv ''testnet'' True)) = [''/proj/keys/testnet.json''] \<and>
   map (snd \<circ> snd) (signatures (trace (deploy otherKeyEnv ''testnet'' True))) =
     [JStr ''EKtestnet''] \<and>
   requests (trace (deploy otherKeyEnv ''testnet'' True)) =
     [(''https://example/graphql'', AccountQuery ''B62qEKtestnet''),
      (''https://example/graphql'', ZkappMutation ''{}'')] \<and>
   filesRead (trace (deploy onlyOtherKeyEnv ''testnet'' True)) = [''/proj/keys/testnet.json''] \<and>
   outcome (deploy onlyOtherKeyEnv ''testnet'' True) = KeyFileUnreadable"
  by (simp add: stage_defs prim_defs example_defs otherKeyConfig_def otherKeyEnv_def
      onlyOtherFile_def onlyOtherKeyEnv_def Let_def)

section \<open>The alias is looked up in lower case\<close>

text \<open>Below the entry point, the configuration file of the environment is not looked at.\<close>

lemma deploySend_configFile [simp]:
  "deploySend (e\<lparr>configFile := c\<rparr>) ep sp = deploySend e ep sp"
  by (simp add: deploySend_def)

lemma deployConfirm_configFile [simp]:
  "deployConfirm (e\<lparr>configFile := c\<rparr>) y ep sp = deployConfirm e y ep sp"
  by (simp add: deployConfirm_def afterConfirm_def split: option.splits)

lemma deploySign_configFile [simp]:
  "deploySign (e\<lparr>configFile := c\<rparr>) y ep key parties f payer n =
   deploySign e y ep key parties f payer n"
  by (simp add: deploySign_def Let_def split: option.splits)

lemma deployNonce_configFile [simp]:
  "deployNonce (e\<lparr>configFile := c\<rparr>) y ep key parties f = deployNonce e y ep key parties f"
  by (simp add: deployNonce_def resolveNonce_def Let_def split: prod.splits answer.splits)

lemma deployFee_configFile [simp]:
  "deployFee (e\<lparr>configFile := c\<rparr>) y ep key parties = deployFee e y ep key parties"
  by (simp add: deployFee_def split: prod.splits answer.splits)

lemma deployKey_configFile [simp]:
  "deployKey (e\<lparr>configFile := c\<rparr>) y n ep name = deployKey e y n ep name"
  by (simp add: deployKey_def readPrivateKey_def keyFilePath_def
      split: option.splits build_result.splits)

lemma deployImport_configFile [simp]:
  "deployImport (e\<lparr>configFile := c\<rparr>) y n ep name = deployImport e y n ep name"
  by (simp add: deployImport_def split: option.splits)







end
